theory Spec2Isabelle
  imports Main "HOL-Library.Word"
begin

section \<open>Errors and results\<close>

text \<open>
  The generator ends a run in three ways other than returning: \<open>fatal\<close> prints a message
  and exits the process, a function returns a Go \<open>error\<close> value that its caller passes on,
  or the runtime panics (an index out of range). All three are values here.
\<close>

datatype error =
    fatal string
  | err string
  | panic string

text \<open>
  The messages are the texts that the generator itself puts together, as bytes; the text
  of a library's error that \<open>fatal\<close> prints after them is left out. \<open>arrow\<close> is the
  arrow of the messages in UTF-8, \<open>dq\<close> the double quote, \<open>sq\<close> the single quote and
  \<open>nl\<close> the end of a line.
\<close>

definition arrow :: string where
  "arrow = [CHR 0xE2, CHR 0x86, CHR 0x92]"

definition dq :: string where
  "dq = [CHR 0x22]"

definition sq :: string where
  "sq = [CHR 0x27]"

definition nl :: string where
  "nl = [CHR 0x0A]"

text \<open>\<open>type Result int\<close> with its three constants.\<close>

datatype Result = something | nothing | fuzzing

section \<open>The rule database (package cfg)\<close>

text \<open>
  The structs of package \<open>cfg\<close> as the generator reads them: a tuple is its attribute list
  and a map keyed by attribute name, a record is its tuple list, and the database holds the
  records and the three-level map \<open>Map[record][tuple][attribute]\<close> that \<open>BuildMap\<close> fills.
\<close>

record cfg_Attribute =
  Attribute_Name :: string
  Attribute_Value :: string

record cfg_Tuple =
  Attributes :: "cfg_Attribute list"
  Tuple_Map :: "string \<rightharpoonup> string"

record cfg_Record =
  Tuples :: "cfg_Tuple list"

record cfg_Cfg =
  Records :: "cfg_Record list"
  Cfg_Map :: "string \<rightharpoonup> (string \<rightharpoonup> (string \<rightharpoonup> string list))"

text \<open>
  \<open>c.Map[a][b]\<close>: indexing a missing first key gives a nil map, and indexing a nil map
  reports the key as absent.
\<close>

definition Map2 :: "cfg_Cfg \<Rightarrow> string \<Rightarrow> string \<Rightarrow> (string \<rightharpoonup> string list) option" where
  "Map2 c a b = (case Cfg_Map c a of None \<Rightarrow> None | Some m \<Rightarrow> m b)"

section \<open>What the generator calls but does not define\<close>

text \<open>
  The command-line flags and the library functions whose code is outside the repository are
  parameters of the model, gathered in one record. \<open>regexp_Compile\<close> is \<open>None\<close> for a
  pattern that does not parse and otherwise the compiled pattern's \<open>MatchString\<close>.
  \<open>Cfg_Lookup\<close> and \<open>Record_Lookup\<close> are the two \<open>Lookup\<close> methods of package
  \<open>cfg\<close>, \<open>None\<close> standing for \<open>ok = false\<close>. \<open>http_NewRequest\<close> gives the error's
  text or the request; of a request the model keeps the fields the generator reads or writes.
  \<open>URL_Query\<close> and \<open>Values_Encode\<close> are \<open>URL.Query()\<close> and \<open>Values.Encode()\<close>,
  \<open>json_Encode\<close> is what the JSON encoder writes for a map of strings, and
  \<open>client_Do\<close> sends a request and gives the response or the error's text.
  \<open>strings_ToLower\<close> and \<open>strings_ToUpper\<close> are the two functions of package
  \<open>strings\<close>, which map letters as Unicode has them.
\<close>

record http_Request =
  Request_Method :: string
  Host :: string
  URL_Path :: string
  URL_RawQuery :: string
  Header :: "string \<rightharpoonup> string list"
  Request_Body :: string

record Response =
  StatusCode :: int
  Response_Body :: string

record Env =
  strict :: bool
  allBodies :: bool
  proto :: string
  regexp_Compile :: "string \<Rightarrow> (string \<Rightarrow> bool) option"
  Cfg_Lookup :: "cfg_Cfg \<Rightarrow> string \<Rightarrow> cfg_Record list option"
  Record_Lookup :: "cfg_Record \<Rightarrow> string \<Rightarrow> cfg_Tuple list option"
  http_NewRequest :: "string \<Rightarrow> string \<Rightarrow> string \<Rightarrow> string + http_Request"
  URL_Query :: "http_Request \<Rightarrow> (string \<rightharpoonup> string list)"
  Values_Encode :: "(string \<rightharpoonup> string list) \<Rightarrow> string"
  json_Encode :: "(string \<rightharpoonup> string) \<Rightarrow> string"
  client_Do :: "http_Request \<Rightarrow> string + Response"
  strings_ToLower :: "string \<Rightarrow> string"
  strings_ToUpper :: "string \<Rightarrow> string"

text \<open>
  \<open>rand.Int(rand.Reader, n)\<close>: the entropy source is the list of numbers it will supply,
  one per draw, reduced into \<open>[0, n)\<close>. A source that is used up is a read error, and
  \<open>rand.Int\<close> panics when \<open>n\<close> is not positive.
\<close>

datatype rand_result = Drawn nat "nat list" | ReadError | NotPositive

fun rand_Int :: "nat list \<Rightarrow> nat \<Rightarrow> rand_result" where
  "rand_Int g 0 = NotPositive"
| "rand_Int [] (Suc n) = ReadError"
| "rand_Int (d # g) (Suc n) = Drawn (d mod Suc n) g"

section \<open>The identifier resolver: lookup\<close>

definition hasRegex :: "cfg_Tuple \<Rightarrow> bool" where
  "hasRegex tuple = (Tuple_Map tuple ''regex'' \<noteq> None)"

text \<open>
  The closure \<open>valid\<close>: string equality, or, when the tuple is in regex mode, compiling the
  attribute's value and matching the context field against it; a pattern that does not
  compile is fatal.
\<close>

definition regexError :: "string \<Rightarrow> error" where
  "regexError v = fatal (''err: could not compile regex '' @ dq @ v @ dq @ '' '' @ arrow)"

definition valid :: "Env \<Rightarrow> bool \<Rightarrow> string \<Rightarrow> string \<Rightarrow> error + bool" where
  "valid E rx v other =
     (if rx then
        (case regexp_Compile E v of
           None \<Rightarrow> Inl (regexError v)
         | Some regex \<Rightarrow> Inr (regex other))
      else Inr (v = other))"

text \<open>
  The loop \<open>searchAttributes\<close> over the attributes left after stripping, with \<open>result\<close>
  as its accumulator: an attribute that is neither \<open>title\<close> nor \<open>path\<close> is passed over,
  a comparison that holds sets \<open>result\<close>, one that fails clears it and leaves the loop.
\<close>

fun searchAttributes ::
  "Env \<Rightarrow> bool \<Rightarrow> string \<Rightarrow> string \<Rightarrow> cfg_Attribute list \<Rightarrow> bool \<Rightarrow> error + bool" where
  "searchAttributes E rx path title [] result = Inr result"
| "searchAttributes E rx path title (attr # attrs) result =
     (if Attribute_Name attr = ''title'' then
        (case valid E rx (Attribute_Value attr) title of
           Inl e \<Rightarrow> Inl e
         | Inr ok \<Rightarrow> if ok then searchAttributes E rx path title attrs True else Inr False)
      else if Attribute_Name attr = ''path'' then
        (case valid E rx (Attribute_Value attr) path of
           Inl e \<Rightarrow> Inl e
         | Inr ok \<Rightarrow> if ok then searchAttributes E rx path title attrs True else Inr False)
      else searchAttributes E rx path title attrs result)"

text \<open>
  One turn of the loop over the tuples of a clause: the first attribute is stripped when
  there is more than one, regex mode is on when more than one attribute is left and the
  tuple's map has the key \<open>regex\<close>, and then one more attribute is stripped.
\<close>

definition stripClause :: "cfg_Tuple \<Rightarrow> cfg_Attribute list" where
  "stripClause tuple =
     (if length (Attributes tuple) > 1 then tl (Attributes tuple) else Attributes tuple)"

definition regexMode :: "cfg_Tuple \<Rightarrow> bool" where
  "regexMode tuple = (length (stripClause tuple) > 1 \<and> hasRegex tuple)"

definition scanned :: "cfg_Tuple \<Rightarrow> cfg_Attribute list" where
  "scanned tuple = (if regexMode tuple then tl (stripClause tuple) else stripClause tuple)"

definition matchTuple :: "Env \<Rightarrow> string \<Rightarrow> string \<Rightarrow> cfg_Tuple \<Rightarrow> error + bool" where
  "matchTuple E path title tuple =
     searchAttributes E (regexMode tuple) path title (scanned tuple) False"

text \<open>The closure \<open>match\<close>: the first tuple whose scan ends with \<open>result\<close> set decides.\<close>

fun match :: "Env \<Rightarrow> string \<Rightarrow> string \<Rightarrow> cfg_Tuple list \<Rightarrow> error + bool" where
  "match E path title [] = Inr False"
| "match E path title (tuple # tuples) =
     (case matchTuple E path title tuple of
        Inl e \<Rightarrow> Inl e
      | Inr result \<Rightarrow> if result then Inr True else match E path title tuples)"

text \<open>The table of enumerated values of a record: the names after the clause keyword.\<close>

definition enumerated :: "cfg_Tuple list \<Rightarrow> string list" where
  "enumerated vs =
     concat (map (\<lambda>tuple. if length (Attributes tuple) > 1
                           then map Attribute_Name (tl (Attributes tuple)) else []) vs)"

definition hasFuzz :: "cfg_Cfg \<Rightarrow> string \<Rightarrow> bool" where
  "hasFuzz c name =
     (case Map2 c name ''properties'' of None \<Rightarrow> False | Some properties \<Rightarrow> properties ''fuzz'' \<noteq> None)"

text \<open>
  The state of the loop \<open>recordSearch\<close>: the values gathered so far, the fuzz flag and the
  entropy left. One turn of the loop for one record follows; every \<open>continue recordSearch\<close>
  is a branch that returns the state.
\<close>

type_synonym search_state = "string list \<times> bool \<times> nat list"

definition disallowed :: "Env \<Rightarrow> string \<Rightarrow> string \<Rightarrow> cfg_Record \<Rightarrow> error + bool" where
  "disallowed E path title record =
     (case Record_Lookup E record ''disallow'' of
        None \<Rightarrow> Inr False
      | Some exceptions \<Rightarrow> match E path title exceptions)"

definition outOfScope :: "Env \<Rightarrow> string \<Rightarrow> string \<Rightarrow> cfg_Record \<Rightarrow> error + bool" where
  "outOfScope E path title record =
     (case Record_Lookup E record ''permit'' of
        None \<Rightarrow> Inr False
      | Some constraints \<Rightarrow>
          (case match E path title constraints of Inl e \<Rightarrow> Inl e | Inr m \<Rightarrow> Inr (\<not> m)))"

definition insertValues ::
  "Env \<Rightarrow> cfg_Cfg \<Rightarrow> string \<Rightarrow> string list \<Rightarrow> cfg_Record \<Rightarrow> search_state \<Rightarrow> error + search_state" where
  "insertValues E c name primaryValue record st =
     (case st of (out, fuzz0, g) \<Rightarrow>
        let fuzz = (fuzz0 \<or> hasFuzz c name);
            vals = (case Record_Lookup E record ''values'' of
                      None \<Rightarrow> [] | Some vs \<Rightarrow> enumerated vs)
        in if length vals > 0 then
             (if fuzz then
                (case rand_Int g (length vals) of
                   NotPositive \<Rightarrow> Inl (panic ''big: argument to Int is <= 0'')
                 | ReadError \<Rightarrow> Inl (fatal ''err: could not rng for value fuzz -'')
                 | Drawn index g' \<Rightarrow> Inr (out @ [vals ! index], fuzz, g'))
              else Inr (out @ vals, fuzz, g))
           else if \<not> fuzz \<and> length primaryValue > 0 then Inr (out @ primaryValue, fuzz, g)
           else Inr (out, fuzz, g))"

definition recordStep ::
  "Env \<Rightarrow> cfg_Cfg \<Rightarrow> string \<Rightarrow> string \<Rightarrow> string \<Rightarrow> string list \<Rightarrow> cfg_Record \<Rightarrow> search_state
     \<Rightarrow> error + search_state" where
  "recordStep E c name path title primaryValue record st =
     (case disallowed E path title record of
        Inl e \<Rightarrow> Inl e
      | Inr excepted \<Rightarrow>
          if excepted then Inr st
          else (case outOfScope E path title record of
                  Inl e \<Rightarrow> Inl e
                | Inr outside \<Rightarrow>
                    if outside then Inr st
                    else insertValues E c name primaryValue record st))"

fun recordSearch ::
  "Env \<Rightarrow> cfg_Cfg \<Rightarrow> string \<Rightarrow> string \<Rightarrow> string \<Rightarrow> string list \<Rightarrow> cfg_Record list \<Rightarrow> search_state
     \<Rightarrow> error + search_state" where
  "recordSearch E c name path title primaryValue [] st = Inr st"
| "recordSearch E c name path title primaryValue (record # records) st =
     (case recordStep E c name path title primaryValue record st of
        Inl e \<Rightarrow> Inl e
      | Inr st' \<Rightarrow> recordSearch E c name path title primaryValue records st')"

text \<open>
  \<open>lookup\<close>, in two parts: from the call of \<open>c.Lookup\<close> to the end
  (\<open>searchRecords\<close>), and the tests on the database's map that come before it. The
  result is the values, the kind of result and the entropy left, or the error that ended
  the run.
\<close>

definition searchRecords ::
  "Env \<Rightarrow> cfg_Cfg \<Rightarrow> string \<Rightarrow> string \<Rightarrow> string \<Rightarrow> string list \<Rightarrow> nat list
     \<Rightarrow> error + ((string list \<times> Result) \<times> nat list)" where
  "searchRecords E c name path title primaryValue g =
     (case Cfg_Lookup E c name of
        None \<Rightarrow> Inr (([], nothing), g)
      | Some records \<Rightarrow>
          (case recordSearch E c name path title primaryValue records ([], False, g) of
             Inl e \<Rightarrow> Inl e
           | Inr (out, fuzz, g') \<Rightarrow>
               Inr ((out, if fuzz then fuzzing
                          else if length out > 0 then something else nothing), g')))"

definition lookup ::
  "Env \<Rightarrow> cfg_Cfg \<Rightarrow> string \<Rightarrow> string \<Rightarrow> string \<Rightarrow> nat list
     \<Rightarrow> error + ((string list \<times> Result) \<times> nat list)" where
  "lookup E c name path title g =
     (case Map2 c name name of
        None \<Rightarrow> Inr (([], nothing), g)
      | Some primaryAttributes \<Rightarrow>
          let primaryValue = (case primaryAttributes name of None \<Rightarrow> [] | Some v \<Rightarrow> v);
              hasValue = (primaryAttributes name \<noteq> None \<and> length primaryValue > 0);
              hasDisallows = (Map2 c name ''disallow'' \<noteq> None);
              hasPermits = (Map2 c name ''permit'' \<noteq> None);
              hasEnums = (Map2 c name ''values'' \<noteq> None)
          in if \<not> hasValue \<and> \<not> hasEnums then Inr (([], nothing), g)
             else if \<not> hasDisallows \<and> \<not> hasPermits \<and> \<not> hasEnums \<and> hasValue
               then Inr ((primaryValue, something), g)
             else searchRecords E c name path title primaryValue g)"

section \<open>The API description (package openapi)\<close>

text \<open>
  The structs of package \<open>openapi\<close>, with the fields the generator reads. A Go map that
  the generator walks with \<open>range\<close> is the list of its entries in the order in which the
  run at hand visits them: Go leaves that order open, and it need not be the order of
  declaration nor the same in two runs. A map that is only indexed is a partial function.
\<close>

record openapi_Parameter =
  Parameter_Name :: string
  Parameter_In :: string
  Parameter_Required :: bool

record openapi_Schema =
  Ref :: string

record openapi_Property =
  Property_Type :: string
  Property_Format :: string
  Enums :: "string list"
  Items :: openapi_Schema

record openapi_Type =
  Properties :: "(string \<times> openapi_Property) list"

record openapi_RequestBody =
  RequestBody_Required :: bool
  Content :: "string \<rightharpoonup> (string \<rightharpoonup> openapi_Schema)"

record openapi_Method =
  Summary :: string
  Parameters :: "openapi_Parameter list"
  RequestBody :: openapi_RequestBody
  Responses :: "(string \<times> string) list"

record openapi_Server =
  URL :: string

record openapi_Info =
  Title :: string

record openapi_API =
  Paths :: "(string \<times> (string \<times> openapi_Method) list) list"
  Servers :: "openapi_Server list"
  Info :: openapi_Info
  Components :: "string \<rightharpoonup> (string \<times> openapi_Type) list"

text \<open>
  \<open>type Request struct\<close>: the HTTP request and a pointer to a method. \<open>generate\<close>
  stores \<open>&method\<close>, the address of the variable of the loop over a path's methods. The
  loop has one such variable for all its turns, so when the loop over a path is over, every
  request built in it points to the operation visited last, also when that operation gave
  no request. Nothing reads the pointer before that, and nothing writes the variable
  after; the field \<open>Method\<close> is what the pointer gives from then on, and \<open>genPaths\<close>
  sets it at the end of each path (\<open>shareMethod\<close>).
\<close>

record Request =
  httpRequest :: http_Request
  Method :: openapi_Method

section \<open>Functions of package strings\<close>

text \<open>\<open>strings.TrimPrefix\<close>, on the bytes of the strings.\<close>

definition TrimPrefix :: "string \<Rightarrow> string \<Rightarrow> string" where
  "TrimPrefix s prefix = (if take (length prefix) s = prefix then drop (length prefix) s else s)"

text \<open>
  \<open>strings.ReplaceAll\<close>: every occurrence of \<open>old\<close>, from the left and without overlap,
  becomes \<open>new\<close>. The counter is the number of bytes of a found occurrence still to pass
  over. With an empty \<open>old\<close>, Go puts \<open>new\<close> before every character and at the end;
  the generator's one call has an \<open>old\<close> in braces, never empty.
\<close>

fun replaceFrom :: "string \<Rightarrow> string \<Rightarrow> nat \<Rightarrow> string \<Rightarrow> string" where
  "replaceFrom old new k [] = []"
| "replaceFrom old new (Suc k) (c # cs) = replaceFrom old new k cs"
| "replaceFrom old new 0 (c # cs) =
     (if take (length old) (c # cs) = old
      then new @ replaceFrom old new (length old - 1) cs
      else c # replaceFrom old new 0 cs)"

definition ReplaceAll :: "string \<Rightarrow> string \<Rightarrow> string \<Rightarrow> string" where
  "ReplaceAll s old new =
     (if old = [] then new @ concat (map (\<lambda>c. c # new) s) else replaceFrom old new 0 s)"

section \<open>Synthetic body values: randProperty\<close>

text \<open>
  The body under construction is a map from property name to value. For a string property
  the inner \<open>switch\<close> on the format stores the date and control then goes on to the
  \<open>if\<close> on the enumeration, as in the source.
\<close>

definition randProperty ::
  "(string \<rightharpoonup> string) \<Rightarrow> string \<Rightarrow> openapi_Property \<Rightarrow> nat list
     \<Rightarrow> error + ((string \<rightharpoonup> string) \<times> nat list)" where
  "randProperty obj name property g =
     (if Property_Type property = ''string'' then
        (let obj1 = (if Property_Format property = ''date-time''
                     then obj(name \<mapsto> ''00-00-0000'') else obj)
         in if length (Enums property) > 0 then
              (case rand_Int g (length (Enums property)) of
                 NotPositive \<Rightarrow> Inl (panic ''big: argument to Int is <= 0'')
               | ReadError \<Rightarrow> Inl (fatal (''err: could not use rand '' @ arrow))
               | Drawn i g' \<Rightarrow> Inr (obj1(name \<mapsto> Enums property ! i), g'))
            else Inr (obj1(name \<mapsto> [CHR 0x22, CHR 0x22]), g))
      else if Property_Type property = ''array'' then Inr (obj(name \<mapsto> ''[]''), g)
      else if Property_Type property = ''integer'' then Inr (obj(name \<mapsto> ''0''), g)
      else Inr (obj(name \<mapsto> [CHR 0x22, CHR 0x22]), g))"

section \<open>The request synthesis pipeline: generate\<close>

text \<open>\<open>values[0]\<close>: Go panics when the slice is empty.\<close>

definition first_value :: "string list \<Rightarrow> error + string" where
  "first_value vs =
     (case vs of [] \<Rightarrow> Inl (panic ''index out of range [0] with length 0'') | v # _ \<Rightarrow> Inr v)"

text \<open>
  The scan of the parameters: the required ones whose placement, in lower case, is the
  given one, in their order.
\<close>

definition placed :: "Env \<Rightarrow> string \<Rightarrow> openapi_Parameter list \<Rightarrow> openapi_Parameter list" where
  "placed E kind ps =
     filter (\<lambda>param. Parameter_Required param \<and> strings_ToLower E (Parameter_In param) = kind) ps"

text \<open>
  A loop over parameters either runs to its end with what it built, or meets a parameter
  with no value and leaves through \<open>continue methods\<close>.
\<close>

datatype 'a filled = Filled 'a | Missed string

fun insertPath ::
  "Env \<Rightarrow> cfg_Cfg \<Rightarrow> string \<Rightarrow> string \<Rightarrow> openapi_Parameter list \<Rightarrow> string \<Rightarrow> nat list
     \<Rightarrow> error + (string filled \<times> nat list)" where
  "insertPath E db path title [] fullPath g = Inr (Filled fullPath, g)"
| "insertPath E db path title (parameter # ps) fullPath g =
     (case lookup E db (Parameter_Name parameter) path title g of
        Inl e \<Rightarrow> Inl e
      | Inr ((vs, r), g') \<Rightarrow>
          (case r of
             something \<Rightarrow>
               (case first_value vs of
                  Inl e \<Rightarrow> Inl e
                | Inr v \<Rightarrow>
                    insertPath E db path title ps
                      (ReplaceAll fullPath (''{'' @ Parameter_Name parameter @ ''}'') v) g')
           | nothing \<Rightarrow>
               if strict E
               then Inl (err (''err: could not find path parameter '' @ arrow @ Parameter_Name parameter))
               else Inr (Missed (Parameter_Name parameter), g')
           | fuzzing \<Rightarrow> insertPath E db path title ps fullPath g'))"

fun insertQuery ::
  "Env \<Rightarrow> cfg_Cfg \<Rightarrow> string \<Rightarrow> string \<Rightarrow> openapi_Parameter list \<Rightarrow> (string \<rightharpoonup> string list)
     \<Rightarrow> nat list \<Rightarrow> error + ((string \<rightharpoonup> string list) filled \<times> nat list)" where
  "insertQuery E db path title [] vals g = Inr (Filled vals, g)"
| "insertQuery E db path title (parameter # ps) vals g =
     (case lookup E db (Parameter_Name parameter) path title g of
        Inl e \<Rightarrow> Inl e
      | Inr ((vs, r), g') \<Rightarrow>
          (case r of
             something \<Rightarrow>
               (case first_value vs of
                  Inl e \<Rightarrow> Inl e
                | Inr v \<Rightarrow>
                    insertQuery E db path title ps (vals(Parameter_Name parameter \<mapsto> [v])) g')
           | nothing \<Rightarrow>
               if strict E
               then Inl (err (''err: could not find query parameter '' @ arrow @ '' '' @ Parameter_Name parameter))
               else Inr (Missed (Parameter_Name parameter), g')
           | fuzzing \<Rightarrow> insertQuery E db path title ps vals g'))"

fun insertHeaders ::
  "Env \<Rightarrow> cfg_Cfg \<Rightarrow> string \<Rightarrow> string \<Rightarrow> openapi_Parameter list \<Rightarrow> (string \<rightharpoonup> string list)
     \<Rightarrow> nat list \<Rightarrow> error + ((string \<rightharpoonup> string list) filled \<times> nat list)" where
  "insertHeaders E db path title [] hdr g = Inr (Filled hdr, g)"
| "insertHeaders E db path title (parameter # ps) hdr g =
     (case lookup E db (Parameter_Name parameter) path title g of
        Inl e \<Rightarrow> Inl e
      | Inr ((vs, r), g') \<Rightarrow>
          (case r of
             something \<Rightarrow>
               (case first_value vs of
                  Inl e \<Rightarrow> Inl e
                | Inr v \<Rightarrow>
                    insertHeaders E db path title ps (hdr(Parameter_Name parameter \<mapsto> [v])) g')
           | nothing \<Rightarrow>
               if strict E
               then Inl (err (''err: could not find header parameter '' @ arrow @ '' '' @ Parameter_Name parameter))
               else Inr (Missed (Parameter_Name parameter), g')
           | fuzzing \<Rightarrow> insertHeaders E db path title ps hdr g'))"

text \<open>
  The loop \<open>search\<close>: the first type of the schema table one of whose properties refers to
  the body's schema, or whose own name is that reference. The name is tested inside the
  loop over the properties, so a type without properties is never found.
\<close>

definition refers :: "string \<Rightarrow> string \<Rightarrow> string \<Rightarrow> openapi_Property \<Rightarrow> bool" where
  "refers ref refLess typeName property =
     (Ref (Items property) = ref \<or> Ref (Items property) = refLess
      \<or> typeName = ref \<or> typeName = refLess)"

definition search ::
  "string \<Rightarrow> string \<Rightarrow> (string \<times> openapi_Type) list \<Rightarrow> openapi_Type option" where
  "search ref refLess schemas =
     map_option snd
       (find (\<lambda>(typeName, t). list_ex (\<lambda>(n, property). refers ref refLess typeName property)
                                 (Properties t)) schemas)"

fun fillBody ::
  "Env \<Rightarrow> cfg_Cfg \<Rightarrow> string \<Rightarrow> string \<Rightarrow> (string \<times> openapi_Property) list \<Rightarrow> (string \<rightharpoonup> string)
     \<Rightarrow> nat list \<Rightarrow> error + ((string \<rightharpoonup> string) \<times> nat list)" where
  "fillBody E db path title [] obj g = Inr (obj, g)"
| "fillBody E db path title ((name, property) # ps) obj g =
     (case lookup E db name path title g of
        Inl e \<Rightarrow> Inl e
      | Inr ((vs, r), g') \<Rightarrow>
          (case r of
             something \<Rightarrow>
               (case first_value vs of
                  Inl e \<Rightarrow> Inl e
                | Inr v \<Rightarrow> fillBody E db path title ps (obj(name \<mapsto> v)) g')
           | nothing \<Rightarrow>
               (case randProperty obj name property g' of
                  Inl e \<Rightarrow> Inl e
                | Inr (obj', g'') \<Rightarrow> fillBody E db path title ps obj' g'')
           | fuzzing \<Rightarrow>
               (case randProperty obj name property g' of
                  Inl e \<Rightarrow> Inl e
                | Inr (obj', g'') \<Rightarrow> fillBody E db path title ps obj' g'')))"

definition bodyRef :: "openapi_Method \<Rightarrow> string" where
  "bodyRef method =
     (case Content (RequestBody method) ''application/json'' of
        None \<Rightarrow> []
      | Some m \<Rightarrow> (case m ''schema'' of None \<Rightarrow> [] | Some schema \<Rightarrow> Ref schema))"

definition buildBody ::
  "Env \<Rightarrow> openapi_API \<Rightarrow> cfg_Cfg \<Rightarrow> string \<Rightarrow> openapi_Method \<Rightarrow> nat list
     \<Rightarrow> error + (string \<times> nat list)" where
  "buildBody E api db path method g =
     (if RequestBody_Required (RequestBody method) \<or> allBodies E then
        (case search (bodyRef method) (TrimPrefix (bodyRef method) ''#/components/schemas/'')
                (case Components api ''schemas'' of None \<Rightarrow> [] | Some schemas \<Rightarrow> schemas) of
           None \<Rightarrow> Inr (json_Encode E Map.empty, g)
         | Some target \<Rightarrow>
             (case fillBody E db path (Title (Info api)) (Properties target) Map.empty g of
                Inl e \<Rightarrow> Inl e
              | Inr (obj, g') \<Rightarrow> Inr (json_Encode E obj, g')))
      else Inr ([], g))"

text \<open>
  What \<open>generate\<close> has built so far: the requests, the count of missed parameters by
  name, the number of operations met, and the entropy left. The counters are \<open>uint64\<close>.
  The map \<open>failed\<close> is written and never read, and is left out.
\<close>

record gen_state =
  requests :: "Request list"
  missing :: "string \<rightharpoonup> 64 word"
  totalPossible :: "64 word"
  entropy :: "nat list"

definition miss :: "string \<Rightarrow> nat list \<Rightarrow> gen_state \<Rightarrow> gen_state" where
  "miss name g st =
     st\<lparr>missing := (missing st)(name \<mapsto> (case missing st name of None \<Rightarrow> 0 | Some n \<Rightarrow> n) + 1),
        entropy := g\<rparr>"

text \<open>The parts of the body of the loop \<open>methods\<close>, from the last to the first.\<close>

definition addHeaders ::
  "Env \<Rightarrow> cfg_Cfg \<Rightarrow> string \<Rightarrow> string \<Rightarrow> openapi_Method \<Rightarrow> http_Request \<Rightarrow> nat list \<Rightarrow> gen_state
     \<Rightarrow> error + gen_state" where
  "addHeaders E db path title method httpReq g st =
     (case insertHeaders E db path title (placed E ''header'' (Parameters method)) (Header httpReq) g of
        Inl e \<Rightarrow> Inl e
      | Inr (Missed name, g') \<Rightarrow> Inr (miss name g' st)
      | Inr (Filled hdr, g') \<Rightarrow>
          Inr (st\<lparr>requests := requests st @ [\<lparr>httpRequest = httpReq\<lparr>Header := hdr\<rparr>, Method = method\<rparr>],
                 entropy := g'\<rparr>))"

definition addQuery ::
  "Env \<Rightarrow> cfg_Cfg \<Rightarrow> string \<Rightarrow> string \<Rightarrow> openapi_Method \<Rightarrow> http_Request \<Rightarrow> nat list \<Rightarrow> gen_state
     \<Rightarrow> error + gen_state" where
  "addQuery E db path title method httpReq g st =
     (case insertQuery E db path title (placed E ''query'' (Parameters method)) (URL_Query E httpReq) g of
        Inl e \<Rightarrow> Inl e
      | Inr (Missed name, g') \<Rightarrow> Inr (miss name g' st)
      | Inr (Filled vals, g') \<Rightarrow>
          addHeaders E db path title method (httpReq\<lparr>URL_RawQuery := Values_Encode E vals\<rparr>) g' st)"

definition newRequest ::
  "Env \<Rightarrow> openapi_API \<Rightarrow> cfg_Cfg \<Rightarrow> string \<Rightarrow> string \<Rightarrow> openapi_Method \<Rightarrow> string \<Rightarrow> nat list
     \<Rightarrow> gen_state \<Rightarrow> error + gen_state" where
  "newRequest E api db path httpMethod method fullPath g st =
     (case buildBody E api db path method g of
        Inl e \<Rightarrow> Inl e
      | Inr (body, g') \<Rightarrow>
          (case http_NewRequest E (strings_ToUpper E httpMethod) fullPath body of
             Inl msg \<Rightarrow>
               if strict E then Inl (err (''err: could not build request '' @ arrow @ '' '' @ msg))
               else Inr (st\<lparr>entropy := g'\<rparr>)
           | Inr httpReq \<Rightarrow> addQuery E db path (Title (Info api)) method httpReq g' st))"

text \<open>One turn of the loop \<open>methods\<close>, for one operation of a path.\<close>

definition genMethod ::
  "Env \<Rightarrow> openapi_API \<Rightarrow> cfg_Cfg \<Rightarrow> string \<Rightarrow> string \<times> openapi_Method \<Rightarrow> gen_state
     \<Rightarrow> error + gen_state" where
  "genMethod E api db path hm st0 =
     (case hm of (httpMethod, method) \<Rightarrow>
        let st = st0\<lparr>totalPossible := totalPossible st0 + 1\<rparr> in
        (case Servers api of
           [] \<Rightarrow> Inl (err ''err: need at least one server to call, none provided'')
         | server # _ \<Rightarrow>
             (case insertPath E db path (Title (Info api)) (placed E ''path'' (Parameters method))
                     (proto E @ URL server @ path) (entropy st) of
                Inl e \<Rightarrow> Inl e
              | Inr (Missed name, g) \<Rightarrow> Inr (miss name g st)
              | Inr (Filled fullPath, g) \<Rightarrow>
                  newRequest E api db path httpMethod method fullPath g st)))"

fun genMethods ::
  "Env \<Rightarrow> openapi_API \<Rightarrow> cfg_Cfg \<Rightarrow> string \<Rightarrow> (string \<times> openapi_Method) list \<Rightarrow> gen_state
     \<Rightarrow> error + gen_state" where
  "genMethods E api db path [] st = Inr st"
| "genMethods E api db path (hm # hms) st =
     (case genMethod E api db path hm st of
        Inl e \<Rightarrow> Inl e
      | Inr st' \<Rightarrow> genMethods E api db path hms st')"

text \<open>
  The loop over the paths. When the loop over the methods of a path has ended, the
  requests it appended, those from position \<open>n\<close> on, all hold the variable \<open>method\<close>
  of that loop, whose value is the operation visited last.
\<close>

definition lastVisited :: "(string \<times> openapi_Method) list \<Rightarrow> Request \<Rightarrow> Request" where
  "lastVisited methods r = (case rev methods of [] \<Rightarrow> r | hm # _ \<Rightarrow> r\<lparr>Method := snd hm\<rparr>)"

definition shareMethod :: "nat \<Rightarrow> (string \<times> openapi_Method) list \<Rightarrow> gen_state \<Rightarrow> gen_state" where
  "shareMethod n methods st =
     st\<lparr>requests := take n (requests st) @ map (lastVisited methods) (drop n (requests st))\<rparr>"

fun genPaths ::
  "Env \<Rightarrow> openapi_API \<Rightarrow> cfg_Cfg \<Rightarrow> (string \<times> (string \<times> openapi_Method) list) list \<Rightarrow> gen_state
     \<Rightarrow> error + gen_state" where
  "genPaths E api db [] st = Inr st"
| "genPaths E api db ((path, methods) # ps) st =
     (case genMethods E api db path methods st of
        Inl e \<Rightarrow> Inl e
      | Inr st' \<Rightarrow> genPaths E api db ps (shareMethod (length (requests st)) methods st'))"

text \<open>
  \<open>generate\<close> returns the requests, the missed parameters and the number of operations,
  or the error.
\<close>

definition generate ::
  "Env \<Rightarrow> openapi_API \<Rightarrow> cfg_Cfg \<Rightarrow> nat list
     \<Rightarrow> error + (Request list \<times> (string \<rightharpoonup> 64 word) \<times> 64 word)" where
  "generate E api db g =
     (case genPaths E api db (Paths api)
             \<lparr>requests = [], missing = Map.empty, totalPossible = 0, entropy = g\<rparr> of
        Inl e \<Rightarrow> Inl e
      | Inr st \<Rightarrow> Inr (requests st, missing st, totalPossible st))"

section \<open>The response classifier: validate\<close>

text \<open>
  \<open>strconv.Atoi\<close>: an optional sign and then decimal digits, at least one, the value
  within the 64 bits of an \<open>int\<close>; anything else is an error.
\<close>

definition digit :: "char \<Rightarrow> nat option" where
  "digit c = map_of (zip ''0123456789'' [0, 1, 2, 3, 4, 5, 6, 7, 8, 9]) c"

fun digits :: "string \<Rightarrow> nat \<Rightarrow> nat option" where
  "digits [] n = Some n"
| "digits (c # cs) n = (case digit c of None \<Rightarrow> None | Some d \<Rightarrow> digits cs (10 * n + d))"

definition Atoi :: "string \<Rightarrow> int option" where
  "Atoi s =
     (let neg = (take 1 s = ''-'');
          ds = (if take 1 s = ''-'' \<or> take 1 s = ''+'' then tl s else s)
      in if ds = [] then None
         else (case digits ds 0 of
                 None \<Rightarrow> None
               | Some n \<Rightarrow>
                   (let v = (if neg then - int n else int n)
                    in if - (2 ^ 63) \<le> v \<and> v < 2 ^ 63 then Some v else None)))"

text \<open>\<open>type Set struct\<close> pairs a request with its response.\<close>

type_synonym Set = "Request \<times> Response"

text \<open>
  The inner loop of \<open>validate\<close>, over the response codes that the request's method
  declares, and the outer one, over the replayed requests. Both \<open>range\<close> over a map: the
  lists are in the order of the visit.
\<close>

fun validateSet :: "Set \<Rightarrow> string list \<Rightarrow> Set list \<times> Set list \<Rightarrow> error + (Set list \<times> Set list)" where
  "validateSet pair [] (sus, ok) = Inr (sus, ok)"
| "validateSet pair (expected # es) (sus, ok) =
     (case Atoi expected of
        None \<Rightarrow> Inl (err (''strconv.Atoi: parsing '' @ dq @ expected @ dq))
      | Some eint \<Rightarrow>
          if eint = StatusCode (snd pair) then validateSet pair es (sus @ [pair], ok)
          else validateSet pair es (sus, ok @ [pair]))"

fun validateLoop :: "Set list \<Rightarrow> Set list \<times> Set list \<Rightarrow> error + (Set list \<times> Set list)" where
  "validateLoop [] b = Inr b"
| "validateLoop (pair # results) b =
     (case validateSet pair (map fst (Responses (Method (fst pair)))) b of
        Inl e \<Rightarrow> Inl e
      | Inr b' \<Rightarrow> validateLoop results b')"

definition validate :: "Set list \<Rightarrow> error + (Set list \<times> Set list)" where
  "validate results = validateLoop results ([], [])"

section \<open>Output: printJSON and printADO\<close>

record Group =
  Group_Method :: string
  HTTPCode :: int
  Path :: string
  Body :: string

record Output =
  Info_Server :: string
  Info_Missed :: "string \<rightharpoonup> 64 word"
  Conformant :: "Group list"
  Suspicious :: "Group list"

definition group :: "Set \<Rightarrow> Group" where
  "group pair =
     \<lparr>Group_Method = Request_Method (httpRequest (fst pair)), HTTPCode = StatusCode (snd pair),
      Path = URL_Path (httpRequest (fst pair)), Body = Response_Body (snd pair)\<rparr>"

text \<open>
  \<open>printJSON\<close> fills the value that it hands to the JSON encoder; that value is the
  result here. \<open>requests[0]\<close> is read first, whatever the list holds.
\<close>

definition printJSON ::
  "Request list \<Rightarrow> (string \<rightharpoonup> 64 word) \<Rightarrow> Set list \<Rightarrow> Set list \<Rightarrow> error + Output" where
  "printJSON reqs missed sus ok =
     (case reqs of
        [] \<Rightarrow> Inl (panic ''index out of range [0] with length 0'')
      | r # _ \<Rightarrow>
          Inr \<lparr>Info_Server = Host (httpRequest r), Info_Missed = missed,
               Conformant = map group ok, Suspicious = map group sus\<rparr>)"

text \<open>
  \<open>printADO\<close> writes with \<open>fmt.Fprintf\<close>: what is written is the list of the format
  strings with their arguments. The missed parameters are walked with \<open>range\<close>. A panic
  ends the function, and the one line written before it is not kept.
\<close>

datatype fmt_arg = S string | D int

type_synonym written = "(string \<times> fmt_arg list) list"

definition bodyLines :: "Set \<Rightarrow> written" where
  "bodyLines pair =
     (if length (Response_Body (snd pair)) > 0
      then [(''##[debug]Body received:'' @ nl @ nl @ ''```'' @ nl @ ''%s'' @ nl @ ''```'' @ nl,
             [S (Response_Body (snd pair))])] else [])"

definition okLines :: "Env \<Rightarrow> Set list \<Rightarrow> written" where
  "okLines E ok =
     (if length ok > 0 then
        [(''##[group]Conformant (ok) Responses (%d requests total)'' @ nl, [D (int (length ok))])]
        @ concat (map (\<lambda>pair.
            [(''##[debug]Conformant Response code `HTTP %d` for path `HTTP %s` `%s`'' @ nl,
              [D (StatusCode (snd pair)), S (strings_ToUpper E (Request_Method (httpRequest (fst pair)))),
               S (URL_Path (httpRequest (fst pair)))])]
            @ bodyLines pair @ [(nl, [])]) ok)
        @ [(''##[endgroup]'' @ nl @ nl, [])]
      else [])"

definition susLines :: "Env \<Rightarrow> Set list \<Rightarrow> written" where
  "susLines E sus =
     (if length sus > 0 then
        [(''##vso[task.logissue type=warning]Suspicious (bad) Responses (%d requests total)'' @ nl,
          [D (int (length sus))])]
        @ concat (map (\<lambda>bad.
            [(''##vso[task.logissue type=warning]Suspicious Response code `HTTP %d` for path `HTTP %s` `%s`''
                @ nl,
              [D (StatusCode (snd bad)), S (strings_ToUpper E (Request_Method (httpRequest (fst bad)))),
               S (URL_Path (httpRequest (fst bad)))])]
            @ bodyLines bad @ [(nl, [])]) sus)
        @ [(''##[endgroup]'' @ nl @ nl, [])]
      else [])"

definition printADO ::
  "Env \<Rightarrow> Request list \<Rightarrow> (string \<times> 64 word) list \<Rightarrow> Set list \<Rightarrow> Set list
     \<Rightarrow> error + written" where
  "printADO E reqs missed sus ok =
     (case reqs of
        [] \<Rightarrow> Inl (panic ''index out of range [0] with length 0'')
      | r # _ \<Rightarrow>
          Inr ([(''##[group]Miscellaneous Info'' @ nl, []),
                (''##[debug]Server we'' @ sq @ ''re targeting: `%s`'' @ nl, [S (Host (httpRequest r))]),
                (''##[debug]Parameters we missed:'' @ nl, [])]
               @ map (\<lambda>(param, count). (''##[debug]`%s` missed %d times'' @ nl, [S param, D (uint count)]))
                   missed
               @ [(''##[endgroup]'' @ nl @ nl, [])]
               @ okLines E ok @ susLines E sus))"

section \<open>The HTTP handler, from the call of generate on\<close>

text \<open>
  \<open>replay\<close> sends one request and is fatal when that fails. The handler replays every
  request, gathers the responses in a map keyed by request, and has them validated and
  printed. The order in which \<open>validate\<close> visits that map and \<open>printADO\<close> the map of
  missed parameters is the runtime's, a parameter here.
\<close>

record Options =
  NoReplay :: bool
  ADO :: bool

record Runtime =
  range_results :: "Set list \<Rightarrow> Set list"
  range_missed :: "(string \<rightharpoonup> 64 word) \<Rightarrow> (string \<times> 64 word) list"

datatype reply =
    Built "Request list" "string \<rightharpoonup> 64 word" "64 word"
  | Text written
  | JSON Output
  | Failed nat string

definition replay :: "Env \<Rightarrow> http_Request \<Rightarrow> error + Response" where
  "replay E req =
     (case client_Do E req of
        Inl msg \<Rightarrow> Inl (fatal (''err: could not make request '' @ arrow @ '' '' @ msg))
      | Inr resp \<Rightarrow> Inr resp)"

fun replayAll :: "Env \<Rightarrow> Request list \<Rightarrow> error + Set list" where
  "replayAll E [] = Inr []"
| "replayAll E (request # rs) =
     (case replay E (httpRequest request) of
        Inl e \<Rightarrow> Inl e
      | Inr resp \<Rightarrow>
          (case replayAll E rs of Inl e \<Rightarrow> Inl e | Inr results \<Rightarrow> Inr ((request, resp) # results)))"

definition genHandler ::
  "Env \<Rightarrow> Runtime \<Rightarrow> Options \<Rightarrow> error + (Request list \<times> (string \<rightharpoonup> 64 word) \<times> 64 word)
     \<Rightarrow> error + reply" where
  "genHandler E rt opts generated =
     (case generated of
        Inl (err msg) \<Rightarrow> Inr (Failed 500 (''Error: generation failed '' @ arrow @ '' '' @ msg @ nl @ nl))
      | Inl (fatal msg) \<Rightarrow> Inl (fatal msg)
      | Inl (panic msg) \<Rightarrow> Inl (panic msg)
      | Inr (reqs, missed, totalOps) \<Rightarrow>
          if NoReplay opts then Inr (Built reqs missed totalOps)
          else (case replayAll E reqs of
                  Inl e \<Rightarrow> Inl e
                | Inr results \<Rightarrow>
                    (case validate (range_results rt results) of
                       Inl (err msg) \<Rightarrow>
                         Inr (Failed 500 (''Error: could not parse expected code '' @ arrow @ '' ''
                                            @ msg @ nl @ nl))
                     | Inl (fatal msg) \<Rightarrow> Inl (fatal msg)
                     | Inl (panic msg) \<Rightarrow> Inl (panic msg)
                     | Inr (sus, ok) \<Rightarrow>
                         if ADO opts
                         then (case printADO E reqs (range_missed rt missed) sus ok of
                                 Inl e \<Rightarrow> Inl e | Inr w \<Rightarrow> Inr (Text w))
                         else (case printJSON reqs missed sus ok of
                                 Inl e \<Rightarrow> Inl e | Inr out \<Rightarrow> Inr (JSON out)))))"

section \<open>A sample environment and sample inputs\<close>

text \<open>
  Concrete values at which the theorems below are exercised. The regular expressions are
  read as Go reads them on the three kinds of pattern used: \<open>(\<close> does not parse,
  \<open>.*\<close> matches every string, and a pattern without special characters matches the
  strings that contain it. The two \<open>Lookup\<close> methods select by the name of the first
  attribute. The HTTP functions accept every request and keep the address as the path.
  Letters are mapped between the cases where they are ASCII letters, as Go does on ASCII
  strings. The JSON encoder writes the entries of an object with the keys \<open>color\<close>,
  \<open>x\<close> and \<open>y\<close>, in the order of the keys and without escapes, as Go does for such
  an object when no value needs an escape.
\<close>

definition upper_case :: string where
  "upper_case = ''ABCDEFGHIJKLMNOPQRSTUVWXYZ''"

definition lower_case :: string where
  "lower_case = ''abcdefghijklmnopqrstuvwxyz''"

definition ascii_ToLower :: "string \<Rightarrow> string" where
  "ascii_ToLower s =
     map (\<lambda>c. case map_of (zip upper_case lower_case) c of None \<Rightarrow> c | Some d \<Rightarrow> d) s"

definition ascii_ToUpper :: "string \<Rightarrow> string" where
  "ascii_ToUpper s =
     map (\<lambda>c. case map_of (zip lower_case upper_case) c of None \<Rightarrow> c | Some d \<Rightarrow> d) s"

fun join :: "string \<Rightarrow> string list \<Rightarrow> string" where
  "join sep [] = []"
| "join sep [s] = s"
| "join sep (s # t # ss) = s @ sep @ join sep (t # ss)"

definition entry :: "string \<Rightarrow> string \<Rightarrow> string" where
  "entry k v = dq @ k @ dq @ '':'' @ dq @ v @ dq"

definition sample_json :: "(string \<rightharpoonup> string) \<Rightarrow> string" where
  "sample_json obj =
     ''{'' @ join '','' (List.map_filter (\<lambda>k. map_option (entry k) (obj k)) [''color'', ''x'', ''y''])
     @ ''}'' @ nl"

fun contains :: "string \<Rightarrow> string \<Rightarrow> bool" where
  "contains p [] = (p = [])"
| "contains p (c # cs) = (take (length p) (c # cs) = p \<or> contains p cs)"

definition sample_Compile :: "string \<Rightarrow> (string \<Rightarrow> bool) option" where
  "sample_Compile p =
     (if p = ''('' then None
      else if p = ''.*'' then Some (\<lambda>s. True)
      else Some (contains p))"

definition firstName :: "cfg_Attribute list \<Rightarrow> string option" where
  "firstName as = (case as of [] \<Rightarrow> None | a # _ \<Rightarrow> Some (Attribute_Name a))"

definition sample_Record_Lookup :: "cfg_Record \<Rightarrow> string \<Rightarrow> cfg_Tuple list option" where
  "sample_Record_Lookup r name =
     (let ts = filter (\<lambda>t. firstName (Attributes t) = Some name) (Tuples r)
      in if ts = [] then None else Some ts)"

definition sample_Cfg_Lookup :: "cfg_Cfg \<Rightarrow> string \<Rightarrow> cfg_Record list option" where
  "sample_Cfg_Lookup c name =
     (let rs = filter (\<lambda>r. (case Tuples r of [] \<Rightarrow> False
                              | t # _ \<Rightarrow> firstName (Attributes t) = Some name)) (Records c)
      in if rs = [] then None else Some rs)"

definition sample_NewRequest :: "string \<Rightarrow> string \<Rightarrow> string \<Rightarrow> string + http_Request" where
  "sample_NewRequest m url body =
     Inr \<lparr>Request_Method = m, Host = [], URL_Path = url, URL_RawQuery = [],
          Header = Map.empty, Request_Body = body\<rparr>"

definition env0 :: Env where
  "env0 =
     \<lparr>strict = False, allBodies = False, proto = ''https'',
      regexp_Compile = sample_Compile,
      Cfg_Lookup = sample_Cfg_Lookup,
      Record_Lookup = sample_Record_Lookup,
      http_NewRequest = sample_NewRequest,
      URL_Query = (\<lambda>r. Map.empty),
      Values_Encode = (\<lambda>vals. []),
      json_Encode = sample_json,
      client_Do = (\<lambda>r. Inr \<lparr>StatusCode = 200, Response_Body = []\<rparr>),
      strings_ToLower = ascii_ToLower,
      strings_ToUpper = ascii_ToUpper\<rparr>"

definition attr :: "string \<Rightarrow> string \<Rightarrow> cfg_Attribute" where
  "attr n v = \<lparr>Attribute_Name = n, Attribute_Value = v\<rparr>"

text \<open>A tuple built from its attributes, its map holding each attribute by name.\<close>

definition tuple_of :: "cfg_Attribute list \<Rightarrow> cfg_Tuple" where
  "tuple_of as =
     \<lparr>Attributes = as, Tuple_Map = map_of (map (\<lambda>a. (Attribute_Name a, Attribute_Value a)) as)\<rparr>"

section \<open>Notions used to state the properties\<close>

text \<open>
  An attribute is compared when its name is \<open>title\<close> or \<open>path\<close>; \<open>compare\<close> is the
  comparison the scan makes for it, and an attribute passes when it is not compared or its
  comparison holds.
\<close>

definition compared :: "cfg_Attribute \<Rightarrow> bool" where
  "compared a = (Attribute_Name a = ''title'' \<or> Attribute_Name a = ''path'')"

definition compare :: "Env \<Rightarrow> bool \<Rightarrow> string \<Rightarrow> string \<Rightarrow> cfg_Attribute \<Rightarrow> error + bool" where
  "compare E rx path title a =
     valid E rx (Attribute_Value a) (if Attribute_Name a = ''title'' then title else path)"

definition passes :: "Env \<Rightarrow> bool \<Rightarrow> string \<Rightarrow> string \<Rightarrow> cfg_Attribute \<Rightarrow> bool" where
  "passes E rx path title a = (if compared a then compare E rx path title a = Inr True else True)"

text \<open>
  The sample databases. \<open>db_plain\<close> holds \<open>id=abc-123\<close> and nothing else, and
  \<open>db_fuzz\<close> gives \<open>id\<close> the values 7 and 8 and the property \<open>fuzz\<close>. In the
  others an identifier has two records. \<open>db_tenants\<close> is
  \<^verbatim>\<open>tenant=456\<close>, \<^verbatim>\<open>disallow path="/foo/accessible"\<close>,
  \<^verbatim>\<open>permit title="Accounts"\<close> followed by \<^verbatim>\<open>tenant=678\<close>; \<open>db_index\<close> is
  \<^verbatim>\<open>index=5\<close>, \<^verbatim>\<open>disallow path="/p"\<close>, \<^verbatim>\<open>properties fuzz\<close>
  followed by \<^verbatim>\<open>index=6\<close>, and \<open>db_index_6\<close> is \<^verbatim>\<open>index=6\<close> alone. The
  map of a database has one entry for an identifier's name, whatever the number of its
  records: under that name it holds the tuples of all of them by keyword, the values of
  equally named attributes in the order of the records.
\<close>

definition db_plain :: cfg_Cfg where
  "db_plain =
     \<lparr>Records = [\<lparr>Tuples = [tuple_of [attr ''id'' ''abc-123'']]\<rparr>],
      Cfg_Map = [''id'' \<mapsto> [''id'' \<mapsto> [''id'' \<mapsto> [''abc-123'']]]]\<rparr>"

definition tenant_456 :: cfg_Record where
  "tenant_456 =
     \<lparr>Tuples = [tuple_of [attr ''tenant'' ''456''],
                tuple_of [attr ''disallow'' [], attr ''path'' ''/foo/accessible''],
                tuple_of [attr ''permit'' [], attr ''title'' ''Accounts'']]\<rparr>"

definition tenant_678 :: cfg_Record where
  "tenant_678 = \<lparr>Tuples = [tuple_of [attr ''tenant'' ''678'']]\<rparr>"

definition db_tenants :: cfg_Cfg where
  "db_tenants =
     \<lparr>Records = [tenant_456, tenant_678],
      Cfg_Map = [''tenant'' \<mapsto>
                  [''tenant'' \<mapsto> [''tenant'' \<mapsto> [''456'', ''678'']],
                   ''disallow'' \<mapsto> [''disallow'' \<mapsto> [[]], ''path'' \<mapsto> [''/foo/accessible'']],
                   ''permit'' \<mapsto> [''permit'' \<mapsto> [[]], ''title'' \<mapsto> [''Accounts'']]]]\<rparr>"

definition index_5 :: cfg_Record where
  "index_5 =
     \<lparr>Tuples = [tuple_of [attr ''index'' ''5''],
                tuple_of [attr ''disallow'' [], attr ''path'' ''/p''],
                tuple_of [attr ''properties'' [], attr ''fuzz'' []]]\<rparr>"

definition index_6 :: cfg_Record where
  "index_6 = \<lparr>Tuples = [tuple_of [attr ''index'' ''6'']]\<rparr>"

definition db_index :: cfg_Cfg where
  "db_index =
     \<lparr>Records = [index_5, index_6],
      Cfg_Map = [''index'' \<mapsto>
                  [''index'' \<mapsto> [''index'' \<mapsto> [''5'', ''6'']],
                   ''disallow'' \<mapsto> [''disallow'' \<mapsto> [[]], ''path'' \<mapsto> [''/p'']],
                   ''properties'' \<mapsto> [''properties'' \<mapsto> [[]], ''fuzz'' \<mapsto> [[]]]]]\<rparr>"

definition db_index_6 :: cfg_Cfg where
  "db_index_6 =
     \<lparr>Records = [index_6],
      Cfg_Map = [''index'' \<mapsto> [''index'' \<mapsto> [''index'' \<mapsto> [''6'']]]]\<rparr>"

definition db_fuzz :: cfg_Cfg where
  "db_fuzz =
     \<lparr>Records = [\<lparr>Tuples = [tuple_of [attr ''id'' ''abc-123''],
                             tuple_of [attr ''properties'' [], attr ''fuzz'' []],
                             tuple_of [attr ''values'' [], attr ''7'' [], attr ''8'' []]]\<rparr>],
      Cfg_Map = [''id'' \<mapsto>
                  [''id'' \<mapsto> [''id'' \<mapsto> [''abc-123'']],
                   ''properties'' \<mapsto> [''properties'' \<mapsto> [[]], ''fuzz'' \<mapsto> [[]]],
                   ''values'' \<mapsto> [''values'' \<mapsto> [[]], ''7'' \<mapsto> [[]], ''8'' \<mapsto> [[]]]]]\<rparr>"

text \<open>
  The sample API of one path, \<open>/accounts/{id}\<close>, with one operation, \<open>get\<close>, that
  requires the path parameter \<open>id\<close> and declares the response code 200.
\<close>

definition param :: "string \<Rightarrow> string \<Rightarrow> openapi_Parameter" where
  "param n place = \<lparr>Parameter_Name = n, Parameter_In = place, Parameter_Required = True\<rparr>"

definition operation :: "openapi_Parameter list \<Rightarrow> string list \<Rightarrow> openapi_Method" where
  "operation ps codes =
     \<lparr>Summary = [], Parameters = ps,
      RequestBody = \<lparr>RequestBody_Required = False, Content = Map.empty\<rparr>,
      Responses = map (\<lambda>code. (code, [])) codes\<rparr>"

definition api_of :: "(string \<times> (string \<times> openapi_Method) list) list \<Rightarrow> openapi_API" where
  "api_of ps =
     \<lparr>Paths = ps, Servers = [\<lparr>URL = ''://api.example''\<rparr>], Info = \<lparr>Title = ''Accounts''\<rparr>,
      Components = Map.empty\<rparr>"

definition api_plain :: openapi_API where
  "api_plain = api_of [(''/accounts/{id}'', [(''get'', operation [param ''id'' ''path''] [''200''])])]"

text \<open>
  The environment in strict mode, the database without any record, and an API of two
  paths without parameters.
\<close>

definition env_strict :: Env where
  "env_strict = env0\<lparr>strict := True\<rparr>"

definition db_empty :: cfg_Cfg where
  "db_empty = \<lparr>Records = [], Cfg_Map = Map.empty\<rparr>"


definition state0 :: "nat list \<Rightarrow> gen_state" where
  "state0 g = \<lparr>requests = [], missing = Map.empty, totalPossible = 0, entropy = g\<rparr>"







definition rt0 :: Runtime where
  "rt0 = \<lparr>range_results = (\<lambda>results. results),
          range_missed = (\<lambda>m. List.map_filter (\<lambda>k. map_option (Pair k) (m k)) [''id'', ''tenant''])\<rparr>"











text \<open>An API of one path with two operations.\<close>

definition api_get_put :: openapi_API where
  "api_get_put =
     api_of [(''/a'', [(''get'', operation [] [''200'']), (''put'', operation [] [''404''])])]"

section \<open>Tuple matching\<close>

lemma scan_skip:
  "\<not> compared u \<Longrightarrow>
   searchAttributes E rx path title (pre @ u # post) r
     = searchAttributes E rx path title (pre @ post) r"
  by (induction pre arbitrary: r) (auto simp: compared_def split: sum.splits)

lemma scan_abort:
  "list_all (passes E rx path title) pre \<Longrightarrow> compared a
   \<Longrightarrow> compare E rx path title a = Inr False
   \<Longrightarrow> searchAttributes E rx path title (pre @ a # post) r = Inr False"
  by (induction pre arbitrary: r)
     (auto simp: compared_def compare_def passes_def split: sum.splits if_splits)

lemma scan_pass:
  "list_all (passes E rx path title) as
   \<Longrightarrow> searchAttributes E rx path title as r = Inr (r \<or> list_ex compared as)"
  by (induction as arbitrary: r)
     (auto simp: compared_def compare_def passes_def split: sum.splits if_splits)

lemma scan_fatal:
  "list_all (passes E True path title) pre \<Longrightarrow> compared a
   \<Longrightarrow> regexp_Compile E (Attribute_Value a) = None
   \<Longrightarrow> searchAttributes E True path title (pre @ a # post) r
       = Inl (regexError (Attribute_Value a))"
  by (induction pre arbitrary: r)
     (auto simp: compared_def compare_def passes_def valid_def split: sum.splits if_splits)

lemma scan_literal: "searchAttributes E False path title as r \<noteq> Inl e"
  by (induction as arbitrary: r) (auto simp: valid_def split: sum.splits)

lemma regexMode_iff: "regexMode t = (hasRegex t \<and> 3 \<le> length (Attributes t))"
  by (auto simp: regexMode_def stripClause_def)

lemma scanned_regex: "regexMode t \<Longrightarrow> scanned t = drop 2 (Attributes t)"
  by (cases "Attributes t"; cases "tl (Attributes t)")
     (auto simp: scanned_def regexMode_def stripClause_def)

lemmas sample_tuple_simps =
  matchTuple_def scanned_def regexMode_def stripClause_def tuple_of_def attr_def hasRegex_def
  valid_def compared_def compare_def passes_def env0_def sample_Compile_def

text \<open>
  C4, as the code has it. In the scan of a tuple's attributes, an attribute whose name is
  neither \<open>title\<close> nor \<open>path\<close> is passed over and leaves the result as it would be without
  it; the first comparison that fails ends the scan, whatever follows, and the tuple does
  not match; and a tuple none of whose comparisons fails matches exactly when at least one
  comparison was made. So a tuple whose scanned attributes are all unrecognised, or that
  has none, matches no context.
\<close>

theorem tuple_scan:
  "(\<not> compared u \<longrightarrow>
      searchAttributes E rx path title (pre @ u # post) r
        = searchAttributes E rx path title (pre @ post) r)
   \<and> (list_all (passes E rx path title) pre' \<and> compared a
        \<and> compare E rx path title a = Inr False \<longrightarrow>
      searchAttributes E rx path title (pre' @ a # post') r = Inr False)
   \<and> (list_all (passes E (regexMode t) path title) (scanned t) \<longrightarrow>
      matchTuple E path title t = Inr (list_ex compared (scanned t)))"
  by (simp add: scan_skip scan_abort scan_pass matchTuple_def)

text \<open>
  As the specification words it, C4 fails: a \<open>permit\<close> tuple whose only other attribute is
  \<open>owner="bob"\<close> has no failing comparison and yet is not a match.
\<close>

theorem tuple_scan_counterexample:
  "list_all (passes env0 False ''/x'' ''T'')
       (scanned (tuple_of [attr ''permit'' [], attr ''owner'' ''bob'']))
   \<and> matchTuple env0 ''/x'' ''T'' (tuple_of [attr ''permit'' [], attr ''owner'' ''bob''])
       = Inr False"
  by (simp add: sample_tuple_simps)

theorem tuple_scan_witness:
  "\<not> compared (attr ''owner'' ''bob'')
   \<and> searchAttributes env0 False ''/x'' ''T''
        ([attr ''title'' ''T''] @ attr ''owner'' ''bob'' # [attr ''path'' ''/x'']) False
       = searchAttributes env0 False ''/x'' ''T'' ([attr ''title'' ''T''] @ [attr ''path'' ''/x'']) False
   \<and> list_all (passes env0 False ''/x'' ''T'') [attr ''title'' ''T'']
   \<and> compared (attr ''path'' ''/y'')
   \<and> compare env0 False ''/x'' ''T'' (attr ''path'' ''/y'') = Inr False
   \<and> searchAttributes env0 False ''/x'' ''T''
        ([attr ''title'' ''T''] @ attr ''path'' ''/y'' # [attr ''title'' ''U'']) False = Inr False
   \<and> list_all (passes env0 False ''/x'' ''T'')
        (scanned (tuple_of [attr ''permit'' [], attr ''title'' ''T'', attr ''owner'' ''bob'']))
   \<and> matchTuple env0 ''/x'' ''T''
        (tuple_of [attr ''permit'' [], attr ''title'' ''T'', attr ''owner'' ''bob'']) = Inr True"
proof -
  have h1: "\<not> compared (attr ''owner'' ''bob'')"
    by (simp add: compared_def attr_def)
  have h2: "list_all (passes env0 False ''/x'' ''T'') [attr ''title'' ''T'']
            \<and> compared (attr ''path'' ''/y'')
            \<and> compare env0 False ''/x'' ''T'' (attr ''path'' ''/y'') = Inr False"
    by (simp add: sample_tuple_simps)
  have h3: "regexMode (tuple_of [attr ''permit'' [], attr ''title'' ''T'', attr ''owner'' ''bob''])
              = False"
    by (simp add: sample_tuple_simps)
  have h4: "list_all (passes env0 False ''/x'' ''T'')
        (scanned (tuple_of [attr ''permit'' [], attr ''title'' ''T'', attr ''owner'' ''bob'']))"
    by (simp add: sample_tuple_simps)
  have h5: "list_ex compared
        (scanned (tuple_of [attr ''permit'' [], attr ''title'' ''T'', attr ''owner'' ''bob'']))"
    by (simp add: sample_tuple_simps)
  from tuple_scan [where u = "attr ''owner'' ''bob''" and E = env0 and rx = False
      and path = "''/x''" and title = "''T''" and pre = "[attr ''title'' ''T'']"
      and post = "[attr ''path'' ''/x'']" and r = False and pre' = "[attr ''title'' ''T'']"
      and a = "attr ''path'' ''/y''" and post' = "[attr ''title'' ''U'']"
      and t = "tuple_of [attr ''permit'' [], attr ''title'' ''T'', attr ''owner'' ''bob'']"]
    h1 h2 h3 h4 h5
  show ?thesis by simp
qed

text \<open>
  C5, as the code has it. A tuple whose map has the key \<open>regex\<close> and that has at least
  three attributes is in regex mode, and the scan starts at its third attribute. In regex
  mode every value that the scan compares is compiled, and a compared value that does not
  compile ends the run with a fatal error when the scan reaches it, that is when no
  comparison before it in the tuple has failed. The first comparison that fails ends the
  scan: what follows it is not compiled, a pattern that does not parse included, and the
  tuple is no match without any error. A tuple of one or two attributes that begins with
  its clause keyword and carries the attribute \<open>regex\<close> has no compared value at all.
\<close>

theorem regex_tuple:
  "(hasRegex t \<and> 3 \<le> length (Attributes t) \<longrightarrow>
      regexMode t \<and> scanned t = drop 2 (Attributes t)
      \<and> matchTuple E path title t = searchAttributes E True path title (drop 2 (Attributes t)) False)
   \<and> (regexMode t \<and> scanned t = pre @ a # post \<and> list_all (passes E True path title) pre
        \<and> compared a \<and> regexp_Compile E (Attribute_Value a) = None \<longrightarrow>
      matchTuple E path title t = Inl (regexError (Attribute_Value a)))
   \<and> (regexMode t' \<and> scanned t' = pre' @ a' # post' \<and> list_all (passes E True path title) pre'
        \<and> compared a' \<and> compare E True path title a' = Inr False \<longrightarrow>
      matchTuple E path title t' = Inr False)
   \<and> (length (Attributes s) \<le> 2 \<and> list_ex (\<lambda>b. Attribute_Name b = ''regex'') (Attributes s)
        \<and> (firstName (Attributes s) = Some ''disallow'' \<or> firstName (Attributes s) = Some ''permit'')
      \<longrightarrow> list_all (\<lambda>b. \<not> compared b) (scanned s) \<and> matchTuple E path title s = Inr False)"
proof (intro conjI impI)
  assume "hasRegex t \<and> 3 \<le> length (Attributes t)"
  then show m: "regexMode t" by (simp add: regexMode_iff)
  then show s: "scanned t = drop 2 (Attributes t)" by (rule scanned_regex)
  from m s show "matchTuple E path title t
                   = searchAttributes E True path title (drop 2 (Attributes t)) False"
    by (simp add: matchTuple_def)
next
  assume "regexMode t \<and> scanned t = pre @ a # post \<and> list_all (passes E True path title) pre
        \<and> compared a \<and> regexp_Compile E (Attribute_Value a) = None"
  then show "matchTuple E path title t = Inl (regexError (Attribute_Value a))"
    by (simp add: matchTuple_def scan_fatal)
next
  assume "regexMode t' \<and> scanned t' = pre' @ a' # post' \<and> list_all (passes E True path title) pre'
        \<and> compared a' \<and> compare E True path title a' = Inr False"
  then show "matchTuple E path title t' = Inr False"
    by (simp add: matchTuple_def scan_abort)
next
  assume h: "length (Attributes s) \<le> 2 \<and> list_ex (\<lambda>b. Attribute_Name b = ''regex'') (Attributes s)
        \<and> (firstName (Attributes s) = Some ''disallow'' \<or> firstName (Attributes s) = Some ''permit'')"
  then have n: "\<not> regexMode s" by (simp add: regexMode_iff)
  show u: "list_all (\<lambda>b. \<not> compared b) (scanned s)"
  proof (cases "Attributes s")
    case Nil
    with h show ?thesis by simp
  next
    case (Cons k rest)
    show ?thesis
    proof (cases rest)
      case Nil
      with h Cons n show ?thesis
        by (auto simp: scanned_def stripClause_def compared_def firstName_def)
    next
      case (Cons q more)
      with h \<open>Attributes s = k # rest\<close> n show ?thesis
        by (auto simp: scanned_def stripClause_def compared_def firstName_def)
    qed
  qed
  have p: "list_all (passes E (regexMode s) path title) (scanned s)"
    using u by (induction "scanned s") (auto simp: passes_def list_all_iff)
  have "\<not> list_ex compared (scanned s)"
    using u by (auto simp: list_all_iff list_ex_iff)
  with scan_pass [OF p, of False] show "matchTuple E path title s = Inr False"
    by (simp add: matchTuple_def)
qed

text \<open>
  As the specification words it, C5 fails on the \<open>disallow\<close> tuple
  \<^verbatim>\<open>disallow regex path="nomatch" title="("\<close>, which the record hands over as
  its \<open>disallow\<close> clause: the title's pattern does not parse, the path's pattern fails
  on the path \<open>/x\<close> first, and the tuple is quietly no match; the run goes on.
\<close>

theorem regex_tuple_counterexample:
  "Record_Lookup env0
       \<lparr>Tuples = [tuple_of [attr ''disallow'' [], attr ''regex'' [], attr ''path'' ''nomatch'',
                            attr ''title'' ''('']]\<rparr> ''disallow''
     = Some [tuple_of [attr ''disallow'' [], attr ''regex'' [], attr ''path'' ''nomatch'',
                       attr ''title'' ''('']]
   \<and> regexMode (tuple_of [attr ''disallow'' [], attr ''regex'' [], attr ''path'' ''nomatch'',
                          attr ''title'' ''(''])
   \<and> regexp_Compile env0 ''('' = None
   \<and> matchTuple env0 ''/x'' ''T''
        (tuple_of [attr ''disallow'' [], attr ''regex'' [], attr ''path'' ''nomatch'',
                   attr ''title'' ''('']) = Inr False
   \<and> disallowed env0 ''/x'' ''T''
        \<lparr>Tuples = [tuple_of [attr ''disallow'' [], attr ''regex'' [], attr ''path'' ''nomatch'',
                             attr ''title'' ''('']]\<rparr> = Inr False"
  by (simp add: sample_tuple_simps disallowed_def sample_Record_Lookup_def firstName_def)

theorem regex_tuple_witness:
  "hasRegex (tuple_of [attr ''disallow'' [], attr ''regex'' [], attr ''title'' ''.*'', attr ''path'' ''(''])
   \<and> 3 \<le> length (Attributes
        (tuple_of [attr ''disallow'' [], attr ''regex'' [], attr ''title'' ''.*'', attr ''path'' ''('']))
   \<and> regexMode (tuple_of [attr ''disallow'' [], attr ''regex'' [], attr ''title'' ''.*'', attr ''path'' ''(''])
   \<and> scanned (tuple_of [attr ''disallow'' [], attr ''regex'' [], attr ''title'' ''.*'', attr ''path'' ''(''])
       = [attr ''title'' ''.*''] @ attr ''path'' ''('' # []
   \<and> list_all (passes env0 True ''/x'' ''T'') [attr ''title'' ''.*'']
   \<and> compared (attr ''path'' ''('')
   \<and> regexp_Compile env0 (Attribute_Value (attr ''path'' ''('')) = None
   \<and> matchTuple env0 ''/x'' ''T''
        (tuple_of [attr ''disallow'' [], attr ''regex'' [], attr ''title'' ''.*'', attr ''path'' ''(''])
       = Inl (regexError ''('')
   \<and> regexMode (tuple_of [attr ''disallow'' [], attr ''regex'' [], attr ''path'' ''nomatch'',
                          attr ''title'' ''(''])
   \<and> scanned (tuple_of [attr ''disallow'' [], attr ''regex'' [], attr ''path'' ''nomatch'',
                        attr ''title'' ''(''])
       = [] @ attr ''path'' ''nomatch'' # [attr ''title'' ''('']
   \<and> compared (attr ''path'' ''nomatch'')
   \<and> compare env0 True ''/x'' ''T'' (attr ''path'' ''nomatch'') = Inr False
   \<and> matchTuple env0 ''/x'' ''T''
        (tuple_of [attr ''disallow'' [], attr ''regex'' [], attr ''path'' ''nomatch'',
                   attr ''title'' ''('']) = Inr False
   \<and> length (Attributes (tuple_of [attr ''permit'' [], attr ''regex'' []])) \<le> 2
   \<and> list_ex (\<lambda>b. Attribute_Name b = ''regex'') (Attributes (tuple_of [attr ''permit'' [], attr ''regex'' []]))
   \<and> firstName (Attributes (tuple_of [attr ''permit'' [], attr ''regex'' []])) = Some ''permit''
   \<and> list_all (\<lambda>b. \<not> compared b) (scanned (tuple_of [attr ''permit'' [], attr ''regex'' []]))
   \<and> matchTuple env0 ''/x'' ''T'' (tuple_of [attr ''permit'' [], attr ''regex'' []]) = Inr False"
proof -
  let ?t = "tuple_of [attr ''disallow'' [], attr ''regex'' [], attr ''title'' ''.*'', attr ''path'' ''('']"
  let ?t' = "tuple_of [attr ''disallow'' [], attr ''regex'' [], attr ''path'' ''nomatch'',
                       attr ''title'' ''('']"
  let ?s = "tuple_of [attr ''permit'' [], attr ''regex'' []]"
  have h1: "hasRegex ?t \<and> 3 \<le> length (Attributes ?t)"
    by (simp add: tuple_of_def attr_def hasRegex_def)
  have h2: "scanned ?t = [attr ''title'' ''.*''] @ attr ''path'' ''('' # []"
    by (simp add: sample_tuple_simps)
  have h3: "list_all (passes env0 True ''/x'' ''T'') [attr ''title'' ''.*'']
            \<and> compared (attr ''path'' ''('')
            \<and> regexp_Compile env0 (Attribute_Value (attr ''path'' ''('')) = None"
    by (simp add: sample_tuple_simps)
  have h4: "regexMode ?t' \<and> scanned ?t' = [] @ attr ''path'' ''nomatch'' # [attr ''title'' ''('']"
    by (simp add: sample_tuple_simps)
  have h5: "compared (attr ''path'' ''nomatch'')
            \<and> compare env0 True ''/x'' ''T'' (attr ''path'' ''nomatch'') = Inr False"
    by (simp add: sample_tuple_simps)
  have h6: "length (Attributes ?s) \<le> 2
            \<and> list_ex (\<lambda>b. Attribute_Name b = ''regex'') (Attributes ?s)
            \<and> firstName (Attributes ?s) = Some ''permit''"
    by (simp add: tuple_of_def attr_def firstName_def)
  have h7: "Attribute_Value (attr ''path'' ''('') = ''(''"
    by (simp add: attr_def)
  note T = regex_tuple [where t = ?t and t' = ?t' and s = ?s and E = env0 and path = "''/x''"
      and title = "''T''" and pre = "[attr ''title'' ''.*'']" and a = "attr ''path'' ''(''"
      and post = "[]" and pre' = "[]" and a' = "attr ''path'' ''nomatch''"
      and post' = "[attr ''title'' ''('']"]
  from T h1 have c1: "regexMode ?t" by blast
  from T c1 h2 h3 have c2: "matchTuple env0 ''/x'' ''T'' ?t = Inl (regexError ''('')"
    by (simp add: h7)
  from T h4 h5 have c3: "matchTuple env0 ''/x'' ''T'' ?t' = Inr False" by simp
  from T h6 have c4: "list_all (\<lambda>b. \<not> compared b) (scanned ?s)
                      \<and> matchTuple env0 ''/x'' ''T'' ?s = Inr False"
    by blast
  from h1 h2 h3 h4 h5 h6 c1 c2 c3 c4 show ?thesis by simp
qed

section \<open>Records excluded by a disallow clause\<close>

lemma match_ex:
  "list_ex (\<lambda>t. matchTuple E path title t = Inr True) ts \<Longrightarrow> match E path title ts \<noteq> Inr False"
  by (induction ts) (auto split: sum.splits if_splits)

lemma recordSearch_append:
  "recordSearch E c name path title pv (rs @ rs') st =
     (case recordSearch E c name path title pv rs st of
        Inl e \<Rightarrow> Inl e
      | Inr st' \<Rightarrow> recordSearch E c name path title pv rs' st')"
  by (induction rs arbitrary: st) (auto split: sum.splits)

lemma recordStep_skip:
  "disallowed E path title record = Inr True \<Longrightarrow>
   recordStep E c name path title pv record st = Inr st"
  by (simp add: recordStep_def)

lemma recordSearch_skip:
  "disallowed E path title record = Inr True \<Longrightarrow>
   recordSearch E c name path title pv (pre @ record # post) st =
   recordSearch E c name path title pv (pre @ post) st"
  by (simp add: recordSearch_append recordStep_skip split: sum.splits)

text \<open>
  The turn of the loop for a record with a matching \<open>disallow\<close> clause: the values
  gathered, the fuzz flag and the entropy stay as they were, whatever its \<open>permit\<close>
  clause says, unless a pattern of an earlier tuple of the clause does not compile.
\<close>

lemma disallow_skips_turn:
  assumes "Record_Lookup E record ''disallow'' = Some exceptions"
    and "list_ex (\<lambda>t. matchTuple E path title t = Inr True) exceptions"
  shows "(match E path title exceptions = Inr True
          \<and> recordStep E c name path title pv record st = Inr st
          \<and> recordSearch E c name path title pv (pre @ record # post) st0
              = recordSearch E c name path title pv (pre @ post) st0)
         \<or> (\<exists>e. match E path title exceptions = Inl e
               \<and> recordStep E c name path title pv record st = Inl e)"
proof (cases "match E path title exceptions")
  case (Inl e)
  then show ?thesis using assms(1) by (simp add: recordStep_def disallowed_def)
next
  case (Inr b)
  with match_ex [OF assms(2)] have "b" by auto
  with Inr assms(1) have "disallowed E path title record = Inr True"
    by (simp add: disallowed_def)
  then show ?thesis using Inr \<open>b\<close> by (simp add: recordStep_skip recordSearch_skip)
qed

lemmas sample_rule_simps =
  sample_Record_Lookup_def sample_Cfg_Lookup_def firstName_def tuple_of_def attr_def
  matchTuple_def scanned_def regexMode_def stripClause_def hasRegex_def
  valid_def env0_def sample_Compile_def disallowed_def outOfScope_def

lemma tenant_456_disallowed:
  "disallowed env0 ''/foo/accessible'' title tenant_456 = Inr True"
  by (simp add: tenant_456_def sample_rule_simps)

lemma index_5_disallowed:
  "disallowed env0 ''/p'' title index_5 = Inr True"
  by (simp add: index_5_def sample_rule_simps)

lemma tenant_records:
  "Cfg_Lookup env0 db_tenants ''tenant'' = Some [tenant_456, tenant_678]"
  "Cfg_Lookup env0 db_index ''index'' = Some [index_5, index_6]"
  by (simp_all add: db_tenants_def db_index_def tenant_456_def tenant_678_def index_5_def
      index_6_def sample_Cfg_Lookup_def firstName_def tuple_of_def attr_def env0_def)

lemma active_records:
  "disallowed env0 path title tenant_678 = Inr False"
  "outOfScope env0 path title tenant_678 = Inr False"
  "Record_Lookup env0 tenant_678 ''values'' = None"
  "disallowed env0 path title index_6 = Inr False"
  "outOfScope env0 path title index_6 = Inr False"
  "Record_Lookup env0 index_6 ''values'' = None"
  by (simp_all add: tenant_678_def index_6_def sample_rule_simps)

lemma sample_maps:
  "Map2 db_tenants ''tenant'' ''tenant'' = Some [''tenant'' \<mapsto> [''456'', ''678'']]"
  "Map2 db_tenants ''tenant'' ''disallow''
     = Some [''disallow'' \<mapsto> [[]], ''path'' \<mapsto> [''/foo/accessible'']]"
  "Map2 db_tenants ''tenant'' ''values'' = None"
  "Map2 db_tenants ''tenant'' ''properties'' = None"
  "Map2 db_index ''index'' ''index'' = Some [''index'' \<mapsto> [''5'', ''6'']]"
  "Map2 db_index ''index'' ''disallow'' = Some [''disallow'' \<mapsto> [[]], ''path'' \<mapsto> [''/p'']]"
  "Map2 db_index ''index'' ''values'' = None"
  "Map2 db_index ''index'' ''properties'' = Some [''properties'' \<mapsto> [[]], ''fuzz'' \<mapsto> [[]]]"
  by (simp_all add: Map2_def db_tenants_def db_index_def)

text \<open>
  C3 at the inputs where the code departs from it. For the path \<open>/foo/accessible\<close> the
  first record of \<open>tenant\<close> is excluded by its \<open>disallow\<close> clause, and yet its value
  456 is returned, and returned first: the second record, which is active, appends the
  primary values that the database's map holds for the name, those of both records. For
  the path \<open>/p\<close> the first record of \<open>index\<close> is excluded, and yet its property
  \<open>fuzz\<close> sets the fuzz flag at the turn of the second record, since the properties are
  read from the map under the name: the result is \<open>fuzzing\<close> without a value, where the
  second record alone gives the value 6.
\<close>

theorem disallowed_record_contributes:
  "disallowed env0 ''/foo/accessible'' ''Accounts'' tenant_456 = Inr True
   \<and> lookup env0 db_tenants ''tenant'' ''/foo/accessible'' ''Accounts'' g
       = Inr (([''456'', ''678''], something), g)
   \<and> disallowed env0 ''/p'' ''Accounts'' index_5 = Inr True
   \<and> lookup env0 db_index ''index'' ''/p'' ''Accounts'' g = Inr (([], fuzzing), g)
   \<and> lookup env0 db_index_6 ''index'' ''/p'' ''Accounts'' g = Inr (([''6''], something), g)"
proof -
  have a: "lookup env0 db_tenants ''tenant'' ''/foo/accessible'' ''Accounts'' g
             = Inr (([''456'', ''678''], something), g)"
    by (simp add: lookup_def searchRecords_def sample_maps tenant_records recordStep_def
        tenant_456_disallowed active_records insertValues_def hasFuzz_def)
  have b: "lookup env0 db_index ''index'' ''/p'' ''Accounts'' g = Inr (([], fuzzing), g)"
    by (simp add: lookup_def searchRecords_def sample_maps tenant_records recordStep_def
        index_5_disallowed active_records insertValues_def hasFuzz_def)
  have c: "lookup env0 db_index_6 ''index'' ''/p'' ''Accounts'' g = Inr (([''6''], something), g)"
    by (simp add: lookup_def Map2_def db_index_6_def)
  from a b c tenant_456_disallowed index_5_disallowed show ?thesis by simp
qed

section \<open>The unconstrained identifier\<close>

text \<open>
  C2. When the database's map has, for an identifier, a primary value that is not empty and
  no \<open>disallow\<close>, \<open>permit\<close> or \<open>values\<close> clause, \<open>lookup\<close> returns that primary
  value with the result \<open>something\<close>, for every path and title, every environment and
  every state of the entropy source, which it leaves as it was.
\<close>

theorem lookup_unconstrained:
  assumes "Map2 c name name = Some primaryAttributes"
    and "primaryAttributes name = Some primaryValue"
    and "primaryValue \<noteq> []"
    and "Map2 c name ''disallow'' = None"
    and "Map2 c name ''permit'' = None"
    and "Map2 c name ''values'' = None"
  shows "lookup E c name path title g = Inr ((primaryValue, something), g)"
  using assms by (simp add: lookup_def)

theorem lookup_unconstrained_witness:
  "Map2 db_plain ''id'' ''id'' = Some [''id'' \<mapsto> [''abc-123'']]
   \<and> [''id'' \<mapsto> [''abc-123'']] ''id'' = Some [''abc-123'']
   \<and> [''abc-123''] \<noteq> []
   \<and> Map2 db_plain ''id'' ''disallow'' = None
   \<and> Map2 db_plain ''id'' ''permit'' = None
   \<and> Map2 db_plain ''id'' ''values'' = None
   \<and> lookup env0 db_plain ''id'' ''/accounts/{id}'' ''Accounts'' [3]
       = Inr (([''abc-123''], something), [3])"
proof -
  have h1: "Map2 db_plain ''id'' ''id'' = Some [''id'' \<mapsto> [''abc-123'']]"
    by (simp add: Map2_def db_plain_def)
  have h2: "[''id'' \<mapsto> [''abc-123'']] ''id'' = Some [''abc-123'']" by simp
  have h3: "[''abc-123''] \<noteq> []" by simp
  have h4: "Map2 db_plain ''id'' ''disallow'' = None" by (simp add: Map2_def db_plain_def)
  have h5: "Map2 db_plain ''id'' ''permit'' = None" by (simp add: Map2_def db_plain_def)
  have h6: "Map2 db_plain ''id'' ''values'' = None" by (simp add: Map2_def db_plain_def)
  from lookup_unconstrained [OF h1 h2 h3 h4 h5 h6, of env0 "''/accounts/{id}''" "''Accounts''" "[3]"]
    h1 h2 h3 h4 h5 h6
  show ?thesis by blast
qed

section \<open>No index is out of range\<close>

lemma valid_no_panic: "valid E rx v other \<noteq> Inl (panic m)"
  by (simp add: valid_def regexError_def split: option.splits)

lemma searchAttributes_no_panic: "searchAttributes E rx path title as r \<noteq> Inl (panic m)"
  by (induction as arbitrary: r) (auto simp: valid_no_panic split: sum.splits)

lemma match_no_panic: "match E path title ts \<noteq> Inl (panic m)"
  by (induction ts) (auto simp: matchTuple_def searchAttributes_no_panic split: sum.splits)

lemma rand_Int_positive: "0 < n \<Longrightarrow> rand_Int g n \<noteq> NotPositive"
  by (cases g; cases n) auto

lemma insertValues_no_panic: "insertValues E c name pv record st \<noteq> Inl (panic m)"
  by (auto simp: insertValues_def Let_def rand_Int_positive split: prod.splits rand_result.splits)

lemma recordStep_no_panic: "recordStep E c name path title pv record st \<noteq> Inl (panic m)"
  by (auto simp: recordStep_def disallowed_def outOfScope_def match_no_panic insertValues_no_panic
      split: sum.splits option.splits)

lemma recordSearch_no_panic: "recordSearch E c name path title pv records st \<noteq> Inl (panic m)"
  by (induction records arbitrary: st) (auto simp: recordStep_no_panic split: sum.splits)

lemma searchRecords_no_panic: "searchRecords E c name path title pv g \<noteq> Inl (panic m)"
  by (auto simp: searchRecords_def recordSearch_no_panic split: option.splits sum.splits prod.splits)

lemma lookup_no_panic: "lookup E c name path title g \<noteq> Inl (panic m)"
  by (auto simp: lookup_def Let_def searchRecords_no_panic split: option.splits)

lemma searchRecords_something:
  "searchRecords E c name path title pv g = Inr ((vs, something), g') \<Longrightarrow> vs \<noteq> []"
  by (auto simp: searchRecords_def split: option.splits sum.splits prod.splits if_splits)

lemma lookup_something:
  "lookup E c name path title g = Inr ((vs, something), g') \<Longrightarrow> vs \<noteq> []"
  by (auto simp: lookup_def Let_def split: option.splits if_splits dest: searchRecords_something)

lemma first_value_something:
  "lookup E c name path title g = Inr ((vs, something), g') \<Longrightarrow> first_value vs = Inr (hd vs)"
  by (drule lookup_something) (simp add: first_value_def split: list.splits)

lemma insertPath_no_panic: "insertPath E db path title ps fullPath g \<noteq> Inl (panic m)"
proof (induction ps arbitrary: fullPath g)
  case Nil
  show ?case by simp
next
  case (Cons p ps)
  show ?case
  proof (cases "lookup E db (Parameter_Name p) path title g")
    case (Inl e)
    then show ?thesis using lookup_no_panic [of E db "Parameter_Name p" path title g m] by auto
  next
    case (Inr x)
    then obtain vs r g' where x: "x = ((vs, r), g')" by (metis prod.exhaust)
    show ?thesis
      using Inr x Cons.IH first_value_something [of E db "Parameter_Name p" path title g vs g']
      by (cases r) auto
  qed
qed


lemma insertQuery_no_panic: "insertQuery E db path title ps vals g \<noteq> Inl (panic m)"
proof (induction ps arbitrary: vals g)
  case Nil
  show ?case by simp
next
  case (Cons p ps)
  show ?case
  proof (cases "lookup E db (Parameter_Name p) path title g")
    case (Inl e)
    then show ?thesis using lookup_no_panic [of E db "Parameter_Name p" path title g m] by auto
  next
    case (Inr x)
    then obtain vs r g' where x: "x = ((vs, r), g')" by (metis prod.exhaust)
    show ?thesis
      using Inr x Cons.IH first_value_something [of E db "Parameter_Name p" path title g vs g']
      by (cases r) auto
  qed
qed

lemma insertHeaders_no_panic: "insertHeaders E db path title ps hdr g \<noteq> Inl (panic m)"
proof (induction ps arbitrary: hdr g)
  case Nil
  show ?case by simp
next
  case (Cons p ps)
  show ?case
  proof (cases "lookup E db (Parameter_Name p) path title g")
    case (Inl e)
    then show ?thesis using lookup_no_panic [of E db "Parameter_Name p" path title g m] by auto
  next
    case (Inr x)
    then obtain vs r g' where x: "x = ((vs, r), g')" by (metis prod.exhaust)
    show ?thesis
      using Inr x Cons.IH first_value_something [of E db "Parameter_Name p" path title g vs g']
      by (cases r) auto
  qed
qed

lemma randProperty_no_panic: "randProperty obj name property g \<noteq> Inl (panic m)"
  by (auto simp: randProperty_def Let_def rand_Int_positive split: rand_result.splits)

lemma fillBody_no_panic: "fillBody E db path title ps obj g \<noteq> Inl (panic m)"
proof (induction ps arbitrary: obj g)
  case Nil
  show ?case by simp
next
  case (Cons np ps)
  obtain name property where np: "np = (name, property)" by (cases np)
  show ?case
  proof (cases "lookup E db name path title g")
    case (Inl e)
    then show ?thesis using np lookup_no_panic [of E db name path title g m] by auto
  next
    case (Inr x)
    then obtain vs r g' where x: "x = ((vs, r), g')" by (metis prod.exhaust)
    show ?thesis
      using Inr x np Cons.IH first_value_something [of E db name path title g vs g']
        randProperty_no_panic [of obj name property g' m]
      by (cases r) (auto split: sum.splits)
  qed
qed

lemma buildBody_no_panic: "buildBody E api db path method g \<noteq> Inl (panic m)"
  by (auto simp: buildBody_def fillBody_no_panic split: option.splits sum.splits)

lemma addHeaders_no_panic: "addHeaders E db path title method httpReq g st \<noteq> Inl (panic m)"
  by (auto simp: addHeaders_def insertHeaders_no_panic split: sum.splits prod.splits filled.splits)

lemma addQuery_no_panic: "addQuery E db path title method httpReq g st \<noteq> Inl (panic m)"
  by (auto simp: addQuery_def insertQuery_no_panic addHeaders_no_panic
      split: sum.splits prod.splits filled.splits)

lemma newRequest_no_panic: "newRequest E api db path httpMethod method fullPath g st \<noteq> Inl (panic m)"
  by (auto simp: newRequest_def buildBody_no_panic addQuery_no_panic split: sum.splits prod.splits)

lemma genMethod_no_panic: "genMethod E api db path hm st \<noteq> Inl (panic m)"
  by (auto simp: genMethod_def Let_def insertPath_no_panic newRequest_no_panic
      split: sum.splits prod.splits filled.splits list.splits)

lemma genMethods_no_panic: "genMethods E api db path hms st \<noteq> Inl (panic m)"
  by (induction hms arbitrary: st) (auto simp: genMethod_no_panic split: sum.splits)

lemma genPaths_no_panic: "genPaths E api db ps st \<noteq> Inl (panic m)"
  by (induction ps arbitrary: st) (auto simp: genMethods_no_panic split: sum.splits)

lemma generate_no_panic: "generate E api db g \<noteq> Inl (panic m)"
  by (auto simp: generate_def genPaths_no_panic split: sum.splits)

lemma lookup_plain:
  "lookup env0 db_plain ''id'' path title g = Inr (([''abc-123''], something), g)"
  by (simp add: lookup_def Map2_def db_plain_def)

text \<open>
  C9. Whenever \<open>lookup\<close> returns \<open>something\<close>, its list of values is not empty, so
  reading its first element succeeds; and \<open>generate\<close>, which reads \<open>values[0]\<close> for
  path, query and header parameters and for body properties, never ends in a panic.
\<close>

theorem something_nonempty:
  "(lookup E c name path title g = Inr ((vs, something), g')
      \<longrightarrow> vs \<noteq> [] \<and> first_value vs = Inr (hd vs))
   \<and> generate E api db g0 \<noteq> Inl (panic m)"
  by (auto simp: generate_no_panic dest: lookup_something first_value_something)

theorem something_nonempty_witness:
  "lookup env0 db_plain ''id'' ''/accounts/{id}'' ''Accounts'' [] = Inr (([''abc-123''], something), [])
   \<and> [''abc-123''] \<noteq> []
   \<and> first_value [''abc-123''] = Inr (hd [''abc-123''])
   \<and> generate env0 api_plain db_plain [] \<noteq> Inl (panic ''index out of range [0] with length 0'')"
  using something_nonempty [of env0 db_plain "''id''" "''/accounts/{id}''" "''Accounts''" "[]"
      "[''abc-123'']" "[]" api_plain db_plain "[]" "''index out of range [0] with length 0''"]
    lookup_plain [of "''/accounts/{id}''" "''Accounts''" "[]"]
  by simp

section \<open>Path parameters\<close>

lemma lookup_fuzz:
  "lookup env0 db_fuzz ''id'' path title [0] = Inr (([''7''], fuzzing), [])"
  by (simp add: lookup_def searchRecords_def Map2_def db_fuzz_def env0_def sample_Cfg_Lookup_def firstName_def
      tuple_of_def attr_def recordStep_def disallowed_def outOfScope_def sample_Record_Lookup_def
      insertValues_def hasFuzz_def enumerated_def)

lemma lookup_empty:
  "lookup E db_empty name path title g = Inr (([], nothing), g)"
  by (simp add: lookup_def Map2_def db_empty_def)

lemma replace_id:
  "ReplaceAll ''https://api.example/accounts/{id}'' ''{id}'' ''7''
     = ''https://api.example/accounts/7''"
  by (simp add: ReplaceAll_def)

lemma placed_plain:
  "placed env0 ''path'' [param ''id'' ''path''] = [param ''id'' ''path'']"
  "placed env_strict ''path'' [param ''id'' ''path''] = [param ''id'' ''path'']"
  by (simp_all add: placed_def param_def env0_def env_strict_def ascii_ToLower_def upper_case_def
      lower_case_def)

lemma first_value_hd: "vs \<noteq> [] \<Longrightarrow> first_value vs = Inr (hd vs)"
  by (cases vs) (simp_all add: first_value_def)


lemma genMethods_append:
  "genMethods E api db path (ms @ ms') st =
     (case genMethods E api db path ms st of
        Inl e \<Rightarrow> Inl e
      | Inr st' \<Rightarrow> genMethods E api db path ms' st')"
  by (induction ms arbitrary: st) (auto split: sum.splits)

lemma genPaths_append:
  "genPaths E api db (ps @ ps') st =
     (case genPaths E api db ps st of
        Inl e \<Rightarrow> Inl e
      | Inr st' \<Rightarrow> genPaths E api db ps' st')"
  by (induction ps arbitrary: st) (auto split: sum.splits)

lemma genPaths_at:
  "genPaths E api db before st0 = Inr st1 \<Longrightarrow> genMethods E api db path earlier st1 = Inr st \<Longrightarrow>
   genPaths E api db (before @ (path, earlier @ hm # later) # after) st0 =
     (case genMethod E api db path hm st of
        Inl e \<Rightarrow> Inl e
      | Inr st' \<Rightarrow>
          (case genMethods E api db path later st' of
             Inl e \<Rightarrow> Inl e
           | Inr st'' \<Rightarrow>
               genPaths E api db after
                 (shareMethod (length (requests st1)) (earlier @ hm # later) st'')))"
  by (simp add: genPaths_append genMethods_append split: sum.splits)

text \<open>
  C1, as the code has it. For a path parameter whose \<open>lookup\<close> gives \<open>something\<close>,
  every \<open>{name}\<close> in the address is replaced by the first value and the loop goes on;
  when it gives \<open>fuzzing\<close> the address is left as it is, token included, and the loop
  goes on; when it gives \<open>nothing\<close>, strict mode returns an error and the loop without
  strict mode is left with the parameter's name. An error of the loop over an operation's
  path parameters is the result of the whole of \<open>generate\<close>; a parameter missed adds one
  to its counter and ends the operation's turn with the requests as they were and the
  entropy as the missing \<open>lookup\<close> left it.
\<close>

theorem path_parameter:
  assumes "lookup E db (Parameter_Name p) path title g = Inr ((vs, r), g')"
    and "Servers api = server # servers"
    and "Paths api = before @ (path, earlier @ (httpMethod, method) # later) # after"
    and "genPaths E api db before (state0 g0) = Inr st1"
    and "genMethods E api db path earlier st1 = Inr st"
  shows "(r = something \<longrightarrow>
            vs \<noteq> [] \<and>
            insertPath E db path title (p # ps) fullPath g
              = insertPath E db path title ps
                  (ReplaceAll fullPath (''{'' @ Parameter_Name p @ ''}'') (hd vs)) g')
         \<and> (r = fuzzing \<longrightarrow>
            insertPath E db path title (p # ps) fullPath g
              = insertPath E db path title ps fullPath g')
         \<and> (r = nothing \<and> strict E \<longrightarrow>
            insertPath E db path title (p # ps) fullPath g
              = Inl (err (''err: could not find path parameter '' @ arrow @ Parameter_Name p)))
         \<and> (r = nothing \<and> \<not> strict E \<longrightarrow>
            insertPath E db path title (p # ps) fullPath g = Inr (Missed (Parameter_Name p), g'))
         \<and> (insertPath E db path (Title (Info api)) (placed E ''path'' (Parameters method))
               (proto E @ URL server @ path) (entropy st) = Inl e \<longrightarrow>
            generate E api db g0 = Inl e)
         \<and> (insertPath E db path (Title (Info api)) (placed E ''path'' (Parameters method))
               (proto E @ URL server @ path) (entropy st) = Inr (Missed name, g2) \<longrightarrow>
            genMethod E api db path (httpMethod, method) st
              = Inr (st\<lparr>totalPossible := totalPossible st + 1,
                       missing := (missing st)
                         (name \<mapsto> (case missing st name of None \<Rightarrow> 0 | Some n \<Rightarrow> n) + 1),
                       entropy := g2\<rparr>))"
proof (intro conjI impI)
  assume r: "r = something"
  with assms(1) show "vs \<noteq> []" by (auto dest: lookup_something)
  then show "insertPath E db path title (p # ps) fullPath g
              = insertPath E db path title ps
                  (ReplaceAll fullPath (''{'' @ Parameter_Name p @ ''}'') (hd vs)) g'"
    using assms(1) r by (simp add: first_value_hd)
next
  assume "r = fuzzing"
  then show "insertPath E db path title (p # ps) fullPath g
              = insertPath E db path title ps fullPath g'"
    using assms(1) by simp
next
  assume "r = nothing \<and> strict E"
  then show "insertPath E db path title (p # ps) fullPath g
              = Inl (err (''err: could not find path parameter '' @ arrow @ Parameter_Name p))"
    using assms(1) by simp
next
  assume "r = nothing \<and> \<not> strict E"
  then show "insertPath E db path title (p # ps) fullPath g = Inr (Missed (Parameter_Name p), g')"
    using assms(1) by simp
next
  assume a: "insertPath E db path (Title (Info api)) (placed E ''path'' (Parameters method))
               (proto E @ URL server @ path) (entropy st) = Inl e"
  have "genMethod E api db path (httpMethod, method) st = Inl e"
    using a assms(2) by (simp add: genMethod_def)
  then have "genPaths E api db (Paths api) (state0 g0) = Inl e"
    by (simp add: assms(3) genPaths_at [OF assms(4) assms(5)])
  then show "generate E api db g0 = Inl e"
    by (simp add: generate_def state0_def)
next
  assume a: "insertPath E db path (Title (Info api)) (placed E ''path'' (Parameters method))
               (proto E @ URL server @ path) (entropy st) = Inr (Missed name, g2)"
  show "genMethod E api db path (httpMethod, method) st
              = Inr (st\<lparr>totalPossible := totalPossible st + 1,
                       missing := (missing st)
                         (name \<mapsto> (case missing st name of None \<Rightarrow> 0 | Some n \<Rightarrow> n) + 1),
                       entropy := g2\<rparr>)"
    using a assms(2) by (simp add: genMethod_def miss_def)
qed

lemma api_plain_fields:
  "Servers api_plain = \<lparr>URL = ''://api.example''\<rparr> # []"
  "Paths api_plain
     = [] @ (''/accounts/{id}'', [] @ (''get'', operation [param ''id'' ''path''] [''200'']) # []) # []"
  "Title (Info api_plain) = ''Accounts''"
  by (simp_all add: api_plain_def api_of_def)

lemma operation_path_parameter:
  "placed env0 ''path'' (Parameters (operation [param ''id'' ''path''] codes))
     = [param ''id'' ''path'']"
  "placed env_strict ''path'' (Parameters (operation [param ''id'' ''path''] codes))
     = [param ''id'' ''path'']"
  by (simp_all add: operation_def placed_plain)

lemma env0_fields: "\<not> strict env0" "proto env0 = ''https''" "strict env_strict"
  "proto env_strict = ''https''"
  by (simp_all add: env0_def env_strict_def)

lemma replace_abc:
  "ReplaceAll ''https://api.example/accounts/{id}'' ''{id}'' ''abc-123''
     = ''https://api.example/accounts/abc-123''"
  by (simp add: ReplaceAll_def)

theorem path_parameter_witness:
  "lookup env0 db_plain ''id'' ''/accounts/{id}'' ''Accounts'' []
     = Inr (([''abc-123''], something), [])
   \<and> insertPath env0 db_plain ''/accounts/{id}'' ''Accounts'' [param ''id'' ''path'']
        ''https://api.example/accounts/{id}'' []
       = Inr (Filled ''https://api.example/accounts/abc-123'', [])
   \<and> lookup env0 db_fuzz ''id'' ''/accounts/{id}'' ''Accounts'' [0] = Inr (([''7''], fuzzing), [])
   \<and> insertPath env0 db_fuzz ''/accounts/{id}'' ''Accounts'' [param ''id'' ''path'']
        ''https://api.example/accounts/{id}'' [0]
       = Inr (Filled ''https://api.example/accounts/{id}'', [])
   \<and> lookup env_strict db_empty ''id'' ''/accounts/{id}'' ''Accounts'' [] = Inr (([], nothing), [])
   \<and> strict env_strict
   \<and> generate env_strict api_plain db_empty []
       = Inl (err (''err: could not find path parameter '' @ arrow @ ''id''))
   \<and> lookup env0 db_empty ''id'' ''/accounts/{id}'' ''Accounts'' [] = Inr (([], nothing), [])
   \<and> \<not> strict env0
   \<and> genMethod env0 api_plain db_empty ''/accounts/{id}''
        (''get'', operation [param ''id'' ''path''] [''200'']) (state0 [])
       = Inr \<lparr>requests = [], missing = [''id'' \<mapsto> 1], totalPossible = 1, entropy = []\<rparr>"
proof -
  let ?p = "param ''id'' ''path''"
  let ?path = "''/accounts/{id}''"
  let ?full = "''https://api.example/accounts/{id}''"
  let ?op = "operation [?p] [''200'']"
  have n: "Parameter_Name ?p = ''id''" by (simp add: param_def)
  have l1: "lookup env0 db_plain (Parameter_Name ?p) ?path ''Accounts'' []
              = Inr (([''abc-123''], something), [])"
    by (simp add: n lookup_plain)
  have l2: "lookup env0 db_fuzz (Parameter_Name ?p) ?path ''Accounts'' [0]
              = Inr (([''7''], fuzzing), [])"
    by (simp add: n lookup_fuzz)
  have l3: "lookup env_strict db_empty (Parameter_Name ?p) ?path ''Accounts'' []
              = Inr (([], nothing), [])"
    by (simp add: lookup_empty)
  have l4: "lookup env0 db_empty (Parameter_Name ?p) ?path ''Accounts'' []
              = Inr (([], nothing), [])"
    by (simp add: lookup_empty)
  have s: "\<And>E db. genPaths E api_plain db [] (state0 []) = Inr (state0 [])"
    "\<And>E db. genMethods E api_plain db ?path [] (state0 []) = Inr (state0 [])"
    by simp_all
  note T = path_parameter [OF _ api_plain_fields(1) api_plain_fields(2) s(1) s(2)]
  have a: "insertPath env0 db_plain ?path ''Accounts'' [?p] ?full []
             = Inr (Filled ''https://api.example/accounts/abc-123'', [])"
    using T [OF l1, of "[]" ?full] by (simp add: n replace_abc)
  have b: "insertPath env0 db_fuzz ?path ''Accounts'' [?p] ?full [0] = Inr (Filled ?full, [])"
    using T [OF l2, of "[]" ?full] by simp
  have c1: "insertPath env_strict db_empty ?path ''Accounts'' [?p] ?full []
              = Inl (err (''err: could not find path parameter '' @ arrow @ ''id''))"
    using T [OF l3, of "[]" ?full] by (simp add: n env0_fields)
  have c: "generate env_strict api_plain db_empty [] = Inl (err (''err: could not find path parameter '' @ arrow @ ''id''))"
    using T [OF l3, of "[]" ?full "err (''err: could not find path parameter '' @ arrow @ ''id'')"] c1
    by (simp add: operation_path_parameter api_plain_fields(3) env0_fields state0_def)
  have d1: "insertPath env0 db_empty ?path ''Accounts'' [?p] ?full [] = Inr (Missed ''id'', [])"
    using T [OF l4, of "[]" ?full] by (simp add: n env0_fields)
  have d: "genMethod env0 api_plain db_empty ?path (''get'', ?op) (state0 [])
       = Inr \<lparr>requests = [], missing = [''id'' \<mapsto> 1], totalPossible = 1, entropy = []\<rparr>"
    using T [OF l4, of "[]" ?full _ "''id''" "[]"] d1
    by (simp add: operation_path_parameter api_plain_fields(3) env0_fields state0_def)
  show ?thesis
    using a b c d lookup_plain lookup_fuzz lookup_empty env0_fields by simp
qed

text \<open>
  As the specification words it, C1 fails for \<open>fuzzing\<close>: with the values 7 and 8 and the property
  \<open>fuzz\<close>, \<open>lookup\<close> gives the value 7, and the address keeps \<open>{id}\<close>.
\<close>

theorem path_parameter_counterexample:
  "lookup env0 db_fuzz ''id'' ''/accounts/{id}'' ''Accounts'' [0] = Inr (([''7''], fuzzing), [])
   \<and> insertPath env0 db_fuzz ''/accounts/{id}'' ''Accounts'' [param ''id'' ''path'']
        ''https://api.example/accounts/{id}'' [0]
       = Inr (Filled ''https://api.example/accounts/{id}'', [])
   \<and> ReplaceAll ''https://api.example/accounts/{id}'' (''{'' @ ''id'' @ ''}'') ''7''
       = ''https://api.example/accounts/7''"
  using lookup_fuzz [of "''/accounts/{id}''" "''Accounts''"]
  by (simp add: param_def replace_id)

section \<open>Classifying the responses\<close>









section \<open>Synthetic body values\<close>

lemma randProperty_defaults:
  "(Property_Type property = ''string'' \<and> Enums property = [] \<longrightarrow>
      randProperty obj name property g = Inr (obj(name \<mapsto> [CHR 0x22, CHR 0x22]), g))
   \<and> (Property_Type property = ''string'' \<and> Enums property \<noteq> [] \<longrightarrow>
      randProperty obj name property (d # g)
        = Inr (obj(name \<mapsto> Enums property ! (d mod length (Enums property))), g)
      \<and> Enums property ! (d mod length (Enums property)) \<in> set (Enums property))
   \<and> (Property_Type property = ''array'' \<longrightarrow>
      randProperty obj name property g = Inr (obj(name \<mapsto> ''[]''), g))
   \<and> (Property_Type property = ''integer'' \<longrightarrow>
      randProperty obj name property g = Inr (obj(name \<mapsto> ''0''), g))
   \<and> (Property_Type property \<noteq> ''string'' \<and> Property_Type property \<noteq> ''array''
        \<and> Property_Type property \<noteq> ''integer'' \<longrightarrow>
      randProperty obj name property g = Inr (obj(name \<mapsto> [CHR 0x22, CHR 0x22]), g))"
proof -
  have e: "Enums property \<noteq> [] \<Longrightarrow>
      rand_Int (d # g) (length (Enums property)) = Drawn (d mod length (Enums property)) g"
    by (cases "Enums property") simp_all
  show ?thesis
    by (auto simp: randProperty_def Let_def e)
qed

text \<open>
  C6 at the input where the code departs from it. For a string property of format
  \<open>date-time\<close> the date \<open>00-00-0000\<close> is stored and then overwritten: without an
  enumeration the value is the empty quoted string, with one it is a member of the
  enumeration. The other defaults are as \<open>randProperty_defaults\<close> has them.
\<close>

theorem randProperty_date_time:
  "randProperty obj name
     \<lparr>Property_Type = ''string'', Property_Format = ''date-time'', Enums = [], Items = items\<rparr> g
     = Inr (obj(name \<mapsto> [CHR 0x22, CHR 0x22]), g)
   \<and> randProperty obj name
     \<lparr>Property_Type = ''string'', Property_Format = ''date-time'', Enums = [''A''], Items = items\<rparr>
     (d # g)
     = Inr (obj(name \<mapsto> ''A''), g)"
  by (simp add: randProperty_def)

section \<open>Printing the results\<close>

text \<open>
  C10. \<open>printJSON\<close> and \<open>printADO\<close> read \<open>requests[0]\<close> whatever the list holds: on
  the empty list both panic with an index out of range, on a list with a first request
  they report that request's host as the server. The HTTP handler, when it replays, hands
  the empty list of requests on to them, and so ends in that panic.
\<close>

theorem print_first_request:
  "printJSON [] missed sus ok = Inl (panic ''index out of range [0] with length 0'')
   \<and> printADO E [] visited sus ok = Inl (panic ''index out of range [0] with length 0'')
   \<and> (\<exists>out. printJSON (r # rs) missed sus ok = Inr out \<and> Info_Server out = Host (httpRequest r))
   \<and> (\<exists>w. printADO E (r # rs) visited sus ok = Inr w
          \<and> w ! 1 = (''##[debug]Server we'' @ sq @ ''re targeting: `%s`'' @ nl,
                   [S (Host (httpRequest r))]))
   \<and> (\<not> NoReplay opts \<and> range_results rt [] = [] \<longrightarrow>
        genHandler E rt opts (Inr ([], missed, n))
          = Inl (panic ''index out of range [0] with length 0''))"
  by (auto simp: printJSON_def printADO_def genHandler_def validate_def)

lemma param_name: "Parameter_Name (param n place) = n"
  by (simp add: param_def)

lemma genMethod_missed:
  "genMethod env0 api_plain db_empty ''/accounts/{id}''
     (''get'', operation [param ''id'' ''path''] [''200'']) (state0 [])
   = Inr \<lparr>requests = [], missing = [''id'' \<mapsto> 1], totalPossible = 1, entropy = []\<rparr>"
  by (simp add: genMethod_def api_plain_fields operation_path_parameter env0_fields
      lookup_empty param_name state0_def miss_def)

lemma generate_nothing:
  "generate env0 api_plain db_empty [] = Inr ([], [''id'' \<mapsto> 1], 1)"
  using genMethod_missed
  by (simp add: generate_def api_plain_fields(2) [simplified] state0_def shareMethod_def)

theorem print_first_request_witness:
  "\<not> NoReplay \<lparr>NoReplay = False, ADO = True\<rparr> \<and> range_results rt0 [] = []
   \<and> generate env0 api_plain db_empty [] = Inr ([], [''id'' \<mapsto> 1], 1)
   \<and> genHandler env0 rt0 \<lparr>NoReplay = False, ADO = True\<rparr> (generate env0 api_plain db_empty [])
       = Inl (panic ''index out of range [0] with length 0'')
   \<and> genHandler env0 rt0 \<lparr>NoReplay = False, ADO = False\<rparr> (generate env0 api_plain db_empty [])
       = Inl (panic ''index out of range [0] with length 0'')"
proof -
  have h: "\<And>a. \<not> NoReplay \<lparr>NoReplay = False, ADO = a\<rparr> \<and> range_results rt0 [] = []"
    by (simp add: rt0_def)
  from print_first_request [where opts = "\<lparr>NoReplay = False, ADO = True\<rparr>" and rt = rt0
      and E = env0 and missed = "[''id'' \<mapsto> 1]" and n = 1]
    print_first_request [where opts = "\<lparr>NoReplay = False, ADO = False\<rparr>" and rt = rt0
      and E = env0 and missed = "[''id'' \<mapsto> 1]" and n = 1]
    h generate_nothing
  show ?thesis by simp
qed

section \<open>Determinism and order of the synthesis\<close>































lemma ToUpper_get: "strings_ToUpper env0 ''get'' = ''GET''"
  by (simp add: env0_def ascii_ToUpper_def upper_case_def lower_case_def)

lemma genMethod_plain:
  "genMethod env0 (api_of ps) db path (''get'', operation [] codes) st
     = Inr (st\<lparr>totalPossible := totalPossible st + 1,
              requests := requests st @
                [\<lparr>httpRequest = \<lparr>Request_Method = ''GET'', Host = [],
                                  URL_Path = ''https://api.example'' @ path, URL_RawQuery = [],
                                  Header = Map.empty, Request_Body = []\<rparr>,
                  Method = operation [] codes\<rparr>]\<rparr>)"
  by (simp add: genMethod_def api_of_def operation_def placed_def newRequest_def buildBody_def
      addQuery_def addHeaders_def env0_def sample_NewRequest_def ascii_ToUpper_def
      upper_case_def lower_case_def)

lemma Paths_api_of: "Paths (api_of ps) = ps"
  by (simp add: api_of_def)



















section \<open>An end-to-end run\<close>

lemma addQuery_no_parameters:
  "placed E ''query'' (Parameters m) = [] \<Longrightarrow> placed E ''header'' (Parameters m) = [] \<Longrightarrow>
   addQuery E db path title m httpReq g st
     = Inr (st\<lparr>requests := requests st @
                [\<lparr>httpRequest = httpReq\<lparr>URL_RawQuery := Values_Encode E (URL_Query E httpReq),
                                        Header := Header httpReq\<rparr>,
                  Method = m\<rparr>],
              entropy := g\<rparr>)"
  by (simp add: addQuery_def addHeaders_def)

lemma operation_other_parameters:
  "placed env0 ''query'' (Parameters (operation [param ''id'' ''path''] codes)) = []"
  "placed env0 ''header'' (Parameters (operation [param ''id'' ''path''] codes)) = []"
  by (simp_all add: operation_def placed_def param_def env0_def ascii_ToLower_def upper_case_def
      lower_case_def)

lemma newRequest_plain:
  "newRequest env0 api_plain db ''/accounts/{id}'' ''get''
     (operation [param ''id'' ''path''] codes) fullPath g st
   = Inr (st\<lparr>requests := requests st @
                [\<lparr>httpRequest = \<lparr>Request_Method = ''GET'', Host = [], URL_Path = fullPath,
                                  URL_RawQuery = [], Header = Map.empty, Request_Body = []\<rparr>,
                  Method = operation [param ''id'' ''path''] codes\<rparr>],
              entropy := g\<rparr>)"
proof -
  have b: "buildBody env0 api_plain db ''/accounts/{id}'' (operation [param ''id'' ''path''] codes) g
             = Inr ([], g)"
    by (simp add: buildBody_def operation_def env0_def)
  have n: "http_NewRequest env0 (strings_ToUpper env0 ''get'') fullPath []
             = Inr \<lparr>Request_Method = ''GET'', Host = [], URL_Path = fullPath,
                    URL_RawQuery = [], Header = Map.empty, Request_Body = []\<rparr>"
    by (simp add: ToUpper_get) (simp add: env0_def sample_NewRequest_def)
  have v: "Values_Encode env0 vals = []" for vals
    by (simp add: env0_def)
  show ?thesis
    by (simp add: newRequest_def b n v
        addQuery_no_parameters [OF operation_other_parameters(1) operation_other_parameters(2)])
qed

text \<open>
  The specification's first end-to-end scenario: the API of the one path
  \<open>/accounts/{id}\<close> and the database \<open>id=abc-123\<close> give one request, for
  \<open>/accounts/abc-123\<close>, one operation counted and no parameter missed.
\<close>

lemma generate_plain:
  "generate env0 api_plain db_plain g
     = Inr ([\<lparr>httpRequest = \<lparr>Request_Method = ''GET'', Host = [],
                               URL_Path = ''https://api.example/accounts/abc-123'',
                               URL_RawQuery = [], Header = Map.empty, Request_Body = []\<rparr>,
              Method = operation [param ''id'' ''path''] [''200'']\<rparr>], Map.empty, 1)"
  by (simp add: generate_def api_plain_fields(2) [simplified] genMethod_def api_plain_fields(1,3)
      operation_path_parameter lookup_plain param_name env0_fields first_value_def replace_abc
      newRequest_plain shareMethod_def lastVisited_def)

text \<open>
  The pointer to the method: the API of the one path \<open>/a\<close> with the operations \<open>get\<close>,
  which declares the code 200, and \<open>put\<close>, which declares 404 and is visited last, gives
  two requests that both hold the operation of \<open>put\<close>.
\<close>

lemma genMethod_put:
  "genMethod env0 (api_of ps) db path (''put'', operation [] codes) st
     = Inr (st\<lparr>totalPossible := totalPossible st + 1,
              requests := requests st @
                [\<lparr>httpRequest = \<lparr>Request_Method = ''PUT'', Host = [],
                                  URL_Path = ''https://api.example'' @ path, URL_RawQuery = [],
                                  Header = Map.empty, Request_Body = []\<rparr>,
                  Method = operation [] codes\<rparr>]\<rparr>)"
  by (simp add: genMethod_def api_of_def operation_def placed_def newRequest_def buildBody_def
      addQuery_def addHeaders_def env0_def sample_NewRequest_def ascii_ToUpper_def
      upper_case_def lower_case_def)

lemma generate_shares_method:
  "generate env0 api_get_put db_empty []
   = Inr ([\<lparr>httpRequest = \<lparr>Request_Method = ''GET'', Host = [],
                             URL_Path = ''https://api.example/a'', URL_RawQuery = [],
                             Header = Map.empty, Request_Body = []\<rparr>,
             Method = operation [] [''404'']\<rparr>,
           \<lparr>httpRequest = \<lparr>Request_Method = ''PUT'', Host = [],
                             URL_Path = ''https://api.example/a'', URL_RawQuery = [],
                             Header = Map.empty, Request_Body = []\<rparr>,
             Method = operation [] [''404'']\<rparr>], Map.empty, 2)"
  by (simp add: generate_def api_get_put_def genMethod_plain genMethod_put Paths_api_of
      shareMethod_def lastVisited_def)

end
